theory Spec2Isabelle
  imports Main "HOL-Library.Sublist"
begin

section \<open>Smart contract packaging and the development mode toggle\<close>

text \<open>
  A shallow embedding of \<^verbatim>\<open>client/src/commands/packageSmartContractCommand.ts\<close> and
  \<^verbatim>\<open>client/src/commands/toggleFabricRuntimeDevMode.ts\<close>. Every function of the two files
  is one definition of the same name. What the functions call in the editor, in Node and
  in the libraries (\<^verbatim>\<open>vscode\<close>, \<^verbatim>\<open>fs-extra\<close>, \<^verbatim>\<open>glob\<close>, \<^verbatim>\<open>path\<close>,
  \<^verbatim>\<open>home-dir\<close>, \<^verbatim>\<open>CommandsUtil\<close>) is a field of the record \<open>host\<close>, so that the
  theorems hold for whatever these collaborators answer; only the statement about what is
  left on the disk fixes the two calls of \<^verbatim>\<open>fs-extra\<close>, to a model given below. What the functions do to the
  outside (notifications, log lines, commands, the file system) is kept in the record
  \<open>world\<close>, which every function takes and returns.
\<close>

subsection \<open>JavaScript values and errors\<close>

text \<open>
  A value of type \<^verbatim>\<open>string | undefined\<close> is a \<open>string option\<close>, \<open>None\<close> being
  \<^verbatim>\<open>undefined\<close>. A thrown value is an \<open>error\<close>: a plain \<^verbatim>\<open>Error(message)\<close>, a
  \<^verbatim>\<open>TypeError(message)\<close>, or a system error of Node with its \<^verbatim>\<open>code\<close> and message.
\<close>

datatype error = Error string | TypeError string | SystemError string string

text \<open>\<^verbatim>\<open>String(err)\<close>, which is what \<^verbatim>\<open>new Error(err)\<close> takes as its message.\<close>

fun toString :: "error \<Rightarrow> string" where
  "toString (Error m) = ''Error: '' @ m"
| "toString (TypeError m) = ''TypeError: '' @ m"
| "toString (SystemError c m) = ''Error: '' @ m"

text \<open>\<^verbatim>\<open>err.code\<close>: only system errors have one.\<close>

fun error_code :: "error \<Rightarrow> string option" where
  "error_code (SystemError c m) = Some c"
| "error_code _ = None"

text \<open>A string operand of \<^verbatim>\<open>+\<close>: \<^verbatim>\<open>undefined\<close> is written out.\<close>

fun js_string :: "string option \<Rightarrow> string" where
  "js_string None = ''undefined''"
| "js_string (Some s) = s"

text \<open>Truthiness of a \<^verbatim>\<open>string | undefined\<close>: \<^verbatim>\<open>undefined\<close> and \<^verbatim>\<open>''\<close> are falsy.\<close>

fun truthy :: "string option \<Rightarrow> bool" where
  "truthy None = False"
| "truthy (Some s) = (s \<noteq> [])"

definition startsWith :: "string \<Rightarrow> string \<Rightarrow> bool" where
  "startsWith s p = (take (length p) s = p)"

text \<open>\<^verbatim>\<open>options.includes(x)\<close> for a \<^verbatim>\<open>string[]\<close> and an \<open>x\<close> that may be undefined.\<close>

fun array_includes :: "string list \<Rightarrow> string option \<Rightarrow> bool" where
  "array_includes xs None = False"
| "array_includes xs (Some x) = (x \<in> set xs)"

subsection \<open>The host and the world\<close>

record workspace_folder =
  folder_name :: string
  folder_uri_path :: string

text \<open>
  The object \<^verbatim>\<open>JSON.parse\<close> gives for \<^verbatim>\<open>package.json\<close>, read at the two fields used: a
  field that is absent is \<open>None\<close>, and a field that is present is a string, as the source
  declares it.
\<close>

record manifest =
  manifest_name :: "string option"
  manifest_version :: "string option"

text \<open>The object both metadata functions return.\<close>

record properties =
  workspacePackageName :: "string option"
  workspacePackageVersion :: "string option"

text \<open>
  The collaborators. \<open>'fs\<close> is the state of the file system.
  \<^item> \<open>packageDirectory\<close> is the setting \<^verbatim>\<open>fabric.package.directory\<close>, and \<open>homeDir\<close> the
    function of \<^verbatim>\<open>home-dir\<close>.
  \<^item> \<open>getWorkspaceFolders\<close> is the result of \<^verbatim>\<open>CommandsUtil.getWorkspaceFolders()\<close>, \<open>Inl\<close>
    when it rejects; \<open>workspaceFolders\<close> is \<^verbatim>\<open>vscode.workspace.workspaceFolders\<close>, which
    is undefined when no folder is open.
  \<^item> \<open>showGolangQuickPickBox\<close> and \<open>showInputBox\<close> are the prompts of \<^verbatim>\<open>CommandsUtil\<close>, as
    functions of the text they show; \<open>None\<close> is a cancelled prompt and the empty string
    a prompt confirmed empty.
  \<^item> \<open>glob\<close> takes the pattern, a \<^verbatim>\<open>cwd\<close> that is a string and \<^verbatim>\<open>ignore\<close>;
    \<open>path_join\<close> is \<^verbatim>\<open>path.join\<close> on strings; \<open>readFile\<close> and \<open>JSON_parse\<close> may fail.
  \<^item> \<open>stat\<close> answers \<^verbatim>\<open>isDirectory()\<close> or fails; \<open>mkdirp\<close> and \<open>copy\<close> of
    \<^verbatim>\<open>fs-extra\<close> return the new file system and the error they reject with, if any.
    Their paths may be undefined, as the source can pass them so.
\<close>

record 'fs host =
  packageDirectory :: string
  homeDir :: "string \<Rightarrow> string"
  getWorkspaceFolders :: "error + string list"
  showGolangQuickPickBox :: "string \<Rightarrow> string option"
  workspaceFolders :: "workspace_folder list option"
  showInputBox :: "string \<Rightarrow> string option"
  glob :: "string \<Rightarrow> string \<Rightarrow> string \<Rightarrow> 'fs \<Rightarrow> string list"
  path_join :: "string list \<Rightarrow> string"
  readFile :: "string \<Rightarrow> 'fs \<Rightarrow> error + string"
  JSON_parse :: "string \<Rightarrow> error + manifest"
  stat :: "string \<Rightarrow> 'fs \<Rightarrow> error + bool"
  mkdirp :: "string option \<Rightarrow> 'fs \<Rightarrow> error option \<times> 'fs"
  copy :: "string option \<Rightarrow> string option \<Rightarrow> 'fs \<Rightarrow> error option \<times> 'fs"

text \<open>
  The world: the file system, the lines logged, the notifications shown (an error object
  is shown as \<^verbatim>\<open>String(err)\<close>) and the commands executed, each in order.
\<close>

record 'fs world =
  fs :: 'fs
  outputLog :: "string list"
  errorMessages :: "string list"
  informationMessages :: "string list"
  executedCommands :: "string list"

definition outputAdapter_log :: "string \<Rightarrow> 'fs world \<Rightarrow> 'fs world" where
  "outputAdapter_log m w = w\<lparr>outputLog := outputLog w @ [m]\<rparr>"

definition showErrorMessage :: "string \<Rightarrow> 'fs world \<Rightarrow> 'fs world" where
  "showErrorMessage m w = w\<lparr>errorMessages := errorMessages w @ [m]\<rparr>"

definition showInformationMessage :: "string \<Rightarrow> 'fs world \<Rightarrow> 'fs world" where
  "showInformationMessage m w = w\<lparr>informationMessages := informationMessages w @ [m]\<rparr>"

definition executeCommand :: "string \<Rightarrow> 'fs world \<Rightarrow> 'fs world" where
  "executeCommand c w = w\<lparr>executedCommands := executedCommands w @ [c]\<rparr>"

subsection \<open>The messages of the source\<close>

definition workspaceFoldersMessage :: string where
  "workspaceFoldersMessage = ''Issue determining available workspace folder options''"

definition languageMessage :: string where
  "languageMessage = ''Failed to determine workspace language type, please ensure your project contains a chaincode file in the correct format (**/*.js, **/.ts, **/*.go)!''"

definition compileMessage :: string where
  "compileMessage = ''Please ensure you have compiled your typescript files into javascript.''"

definition packageJsonMessage :: string where
  "packageJsonMessage = ''Please enter a package name and/or package version into your package.json''"

definition goInputMessage :: string where
  "goInputMessage = ''Could not create package directory, please input a name or version for your go project.''"

definition goExistsMessage :: string where
  "goExistsMessage = ''Could not create package directory, please input a different name or version for your go project.''"

definition packageJsonExistsMessage :: string where
  "packageJsonExistsMessage = ''Please change the name and/or the version of the project in your package.json file.''"

subsection \<open>packageSmartContractCommand.ts\<close>

text \<open>\<^verbatim>\<open>packageDir.replace('~', '')\<close> on a string that starts with \<^verbatim>\<open>~\<close> drops that character.\<close>

definition getBasePackageDir :: "'fs host \<Rightarrow> string \<Rightarrow> string" where
  "getBasePackageDir env packageDir =
     (if startsWith packageDir ''~'' then homeDir env (tl packageDir) else packageDir)"

text \<open>The loop over \<^verbatim>\<open>vscode.workspace.workspaceFolders\<close>: the first folder of that name.\<close>

fun folderPath :: "workspace_folder list \<Rightarrow> string option \<Rightarrow> string option" where
  "folderPath [] workspaceFolder = None"
| "folderPath (folder # rest) workspaceFolder =
     (if Some (folder_name folder) = workspaceFolder then Some (folder_uri_path folder)
      else folderPath rest workspaceFolder)"

definition chooseWorkspace :: "'fs host \<Rightarrow> 'fs world \<Rightarrow> (error + string option) \<times> 'fs world" where
  "chooseWorkspace env w0 =
     (let workspace = workspaceFolders env;
          w = outputAdapter_log ''Getting workspace folders...'' w0
      in case getWorkspaceFolders env of
           Inl err \<Rightarrow>
             (Inl (Error workspaceFoldersMessage), showErrorMessage workspaceFoldersMessage w)
         | Inr workspaceFolderOptions \<Rightarrow>
             (let workspaceFolder =
                    (if length workspaceFolderOptions > 1
                     then showGolangQuickPickBox env ''Choose a workspace folder to package''
                     else (case workspaceFolderOptions of [] \<Rightarrow> None | x # _ \<Rightarrow> Some x))
              in if \<not> array_includes workspaceFolderOptions workspaceFolder then (Inr None, w)
                 else (case workspace of
                         None \<Rightarrow> (Inl (TypeError ''workspace is not iterable''), w)
                       | Some folders \<Rightarrow> (Inr (folderPath folders workspaceFolder), w))))"

text \<open>The three searches of \<open>getLanguage\<close>, each with \<^verbatim>\<open>node_modules\<close> ignored.\<close>

definition jsFiles :: "'fs host \<Rightarrow> string \<Rightarrow> 'fs world \<Rightarrow> string list" where
  "jsFiles env workspaceDir w = glob env ''**/*.js'' workspaceDir ''**/node_modules/**'' (fs w)"

definition tsFiles :: "'fs host \<Rightarrow> string \<Rightarrow> 'fs world \<Rightarrow> string list" where
  "tsFiles env workspaceDir w = glob env ''**/*.ts'' workspaceDir ''**/node_modules/**'' (fs w)"

definition goFiles :: "'fs host \<Rightarrow> string \<Rightarrow> 'fs world \<Rightarrow> string list" where
  "goFiles env workspaceDir w = glob env ''**/*.go'' workspaceDir ''**/node_modules/**'' (fs w)"

text \<open>
  \<^verbatim>\<open>Glob\<close> resolves the \<^verbatim>\<open>cwd\<close> it is given with \<^verbatim>\<open>path.resolve\<close>, which throws a
  TypeError when it is not a string: with an undefined workspace folder the first search
  rejects, and nothing is classified.
\<close>

definition getLanguage :: "'fs host \<Rightarrow> string option \<Rightarrow> 'fs world \<Rightarrow> (error + string option) \<times> 'fs world" where
  "getLanguage env workspaceDir w =
     (case workspaceDir of
        None \<Rightarrow> (Inl (TypeError ''Path must be a string. Received undefined''), w)
      | Some cwd \<Rightarrow>
          (if length (jsFiles env cwd w) > 0 \<and> length (tsFiles env cwd w) > 0
             then (Inr (Some ''/typescript/''), w)
           else if length (tsFiles env cwd w) > 0 \<and> length (jsFiles env cwd w) = 0
             then (Inl (Error compileMessage), showErrorMessage compileMessage w)
           else if length (goFiles env cwd w) > 0 then (Inr (Some ''/go/src/''), w)
           else if length (jsFiles env cwd w) > 0 then (Inr (Some ''/javascript/''), w)
           else (Inr None, w)))"

text \<open>
  \<^verbatim>\<open>path.join\<close> throws a TypeError when a segment is not a string, which is the case of an
  undefined \<^verbatim>\<open>workspaceDir\<close>.
\<close>

definition packageJsonNameAndVersion ::
  "'fs host \<Rightarrow> string option \<Rightarrow> 'fs world \<Rightarrow> (error + properties option) \<times> 'fs world" where
  "packageJsonNameAndVersion env workspaceDir w =
     (case workspaceDir of
        None \<Rightarrow> (Inl (TypeError ''Path must be a string. Received undefined''), w)
      | Some wd \<Rightarrow>
          (let workspacePackage = path_join env [wd, ''/package.json'']
           in case readFile env workspacePackage (fs w) of
                Inl err \<Rightarrow> (Inl err, w)
              | Inr workspacePackageContents \<Rightarrow>
                  (case JSON_parse env workspacePackageContents of
                     Inl err \<Rightarrow> (Inl err, w)
                   | Inr workspacePackageObj \<Rightarrow>
                       (let name = manifest_name workspacePackageObj;
                            version = manifest_version workspacePackageObj
                        in if \<not> truthy name \<or> \<not> truthy version
                           then (Inl (Error packageJsonMessage), showErrorMessage packageJsonMessage w)
                           else (Inr (Some \<lparr>workspacePackageName = name,
                                            workspacePackageVersion = version\<rparr>), w)))))"

definition golangPackageAndVersion ::
  "'fs host \<Rightarrow> 'fs world \<Rightarrow> (error + properties option) \<times> 'fs world" where
  "golangPackageAndVersion env w =
     (let name = showInputBox env ''Enter a name for your go package''
      in if \<not> truthy name then (Inr None, w)
         else
           (let version = showInputBox env ''Enter a version for your go package''
            in if truthy version then (Inr None, w)
               else if name = Some '''' \<or> version = Some ''''
                 then (Inl (Error goInputMessage), showErrorMessage goInputMessage w)
               else (Inr (Some \<lparr>workspacePackageName = name,
                                workspacePackageVersion = version\<rparr>), w)))"

text \<open>
  The \<^verbatim>\<open>catch\<close> block of \<open>getFinalDirectory\<close>, entered with the error of \<^verbatim>\<open>fs.stat\<close> or
  with the error the \<^verbatim>\<open>try\<close> block itself throws for an existing directory.
\<close>

definition probeCatch :: "string \<Rightarrow> error \<Rightarrow> 'fs world \<Rightarrow> (error + string option) \<times> 'fs world" where
  "probeCatch dir err w =
     (if error_code err = Some ''ENOENT'' then (Inr (Some dir), w)
      else (Inl (Error (toString err)), showErrorMessage (toString err) w))"

definition getFinalDirectory ::
  "'fs host \<Rightarrow> string \<Rightarrow> string option \<Rightarrow> 'fs world \<Rightarrow> (error + string option) \<times> 'fs world" where
  "getFinalDirectory env packageDir workspaceDir w0 =
     (case getLanguage env workspaceDir w0 of
        (Inl err, w1) \<Rightarrow> (Inl err, w1)
      | (Inr None, w1) \<Rightarrow> (Inl (Error languageMessage), showErrorMessage languageMessage w1)
      | (Inr (Some language), w1) \<Rightarrow>
          (case (if language = ''/go/src/'' then golangPackageAndVersion env w1
                 else packageJsonNameAndVersion env workspaceDir w1) of
             (Inl err, w2) \<Rightarrow> (Inl err, w2)
           | (Inr None, w2) \<Rightarrow>
               (Inl (TypeError ''Cannot read property 'workspacePackageName' of undefined''), w2)
           | (Inr (Some props), w2) \<Rightarrow>
               (let dir = path_join env [packageDir, language,
                            js_string (workspacePackageName props) @ ''@v'' @
                            js_string (workspacePackageVersion props)]
                in case stat env dir (fs w2) of
                     Inl err \<Rightarrow> probeCatch dir err w2
                   | Inr isDirectory \<Rightarrow>
                       (if isDirectory
                        then (let message = (if language = ''/go/src/'' then goExistsMessage
                                             else packageJsonExistsMessage)
                              in probeCatch dir (Error message) (showErrorMessage message w2))
                        else (Inr None, w2)))))"

definition createAndPackage ::
  "'fs host \<Rightarrow> string option \<Rightarrow> string option \<Rightarrow> 'fs world \<Rightarrow> (error + unit) \<times> 'fs world" where
  "createAndPackage env dir workspaceDir w =
     (case mkdirp env dir (fs w) of
        (Some err, fs1) \<Rightarrow>
          (Inl (Error (toString err)), showErrorMessage (toString err) (w\<lparr>fs := fs1\<rparr>))
      | (None, fs1) \<Rightarrow>
          (case copy env workspaceDir dir fs1 of
             (Some err, fs2) \<Rightarrow>
               (Inl (Error (toString err)), showErrorMessage (toString err) (w\<lparr>fs := fs2\<rparr>))
           | (None, fs2) \<Rightarrow>
               (Inr (), showInformationMessage (''Smart Contract packaged: '' @ js_string dir)
                          (w\<lparr>fs := fs2\<rparr>))))"

definition createPackageDir :: "'fs host \<Rightarrow> string \<Rightarrow> 'fs world \<Rightarrow> (error + unit) \<times> 'fs world" where
  "createPackageDir env packageDir w0 =
     (case chooseWorkspace env w0 of
        (Inl err, w1) \<Rightarrow> (Inl err, w1)
      | (Inr workspaceDir, w1) \<Rightarrow>
          (case getFinalDirectory env packageDir workspaceDir w1 of
             (Inl err, w2) \<Rightarrow> (Inl err, w2)
           | (Inr dir, w2) \<Rightarrow> createAndPackage env dir workspaceDir w2))"

definition packageSmartContract :: "'fs host \<Rightarrow> 'fs world \<Rightarrow> 'fs world" where
  "packageSmartContract env w0 =
     (let packageDir = getBasePackageDir env (packageDirectory env)
      in case createPackageDir env packageDir w0 of
           (Inl err, w1) \<Rightarrow> showErrorMessage (toString err) w1
         | (Inr u, w1) \<Rightarrow> executeCommand ''blockchainAPackageExplorer.refreshEntry'' w1)"

subsection \<open>toggleFabricRuntimeDevMode.ts\<close>

text \<open>
  Modelled from the spec: the classes \<^verbatim>\<open>FabricRuntime\<close>, \<^verbatim>\<open>FabricRuntimeManager\<close> and
  \<^verbatim>\<open>RuntimeTreeItem\<close> are not among the sources. A runtime is its development mode
  flag, whether it is running, and the calls made on it so far, in order; the manager is
  a map from names to runtimes; a tree item is the name it gives.
\<close>

datatype runtime_call = SetDevelopmentMode bool | IsRunning | Restart

record FabricRuntime =
  developmentMode :: bool
  running :: bool
  calls :: "runtime_call list"

record RuntimeTreeItem =
  getName :: string

definition isDevelopmentMode :: "FabricRuntime \<Rightarrow> bool" where
  "isDevelopmentMode r = developmentMode r"

definition setDevelopmentMode :: "bool \<Rightarrow> FabricRuntime \<Rightarrow> FabricRuntime" where
  "setDevelopmentMode b r = r\<lparr>developmentMode := b, calls := calls r @ [SetDevelopmentMode b]\<rparr>"

definition isRunning :: "FabricRuntime \<Rightarrow> bool \<times> FabricRuntime" where
  "isRunning r = (running r, r\<lparr>calls := calls r @ [IsRunning]\<rparr>)"

definition restart :: "FabricRuntime \<Rightarrow> FabricRuntime" where
  "restart r = r\<lparr>calls := calls r @ [Restart]\<rparr>"

text \<open>The runtime manager and the progress notifications shown.\<close>

record runtime_world =
  runtimes :: "string \<rightharpoonup> FabricRuntime"
  progressReports :: "string list"

text \<open>
  \<^verbatim>\<open>runtimeManager.get(runtimeName)\<close>, where the name may be undefined. The runtime object
  is shared with the manager, so in the model its new state is stored back under the name
  it was found by.
\<close>

definition runtimeManager_get :: "runtime_world \<Rightarrow> string option \<Rightarrow> FabricRuntime option" where
  "runtimeManager_get w runtimeName = (case runtimeName of None \<Rightarrow> None | Some n \<Rightarrow> runtimes w n)"

definition runtimeManager_store ::
  "string option \<Rightarrow> FabricRuntime \<Rightarrow> runtime_world \<Rightarrow> runtime_world" where
  "runtimeManager_store runtimeName r w =
     (case runtimeName of None \<Rightarrow> w | Some n \<Rightarrow> w\<lparr>runtimes := (runtimes w)(n \<mapsto> r)\<rparr>)"

definition progress_report :: "string \<Rightarrow> runtime_world \<Rightarrow> runtime_world" where
  "progress_report m w = w\<lparr>progressReports := progressReports w @ [m]\<rparr>"

text \<open>
  The first argument is \<^verbatim>\<open>CommandsUtil.showRuntimeQuickPickBox\<close>, the second the optional
  tree item.
\<close>

definition toggleFabricRuntimeDevMode ::
  "(string \<Rightarrow> string option) \<Rightarrow> RuntimeTreeItem option \<Rightarrow> runtime_world \<Rightarrow> error + runtime_world" where
  "toggleFabricRuntimeDevMode showRuntimeQuickPickBox runtimeTreeItem w =
     (let runtimeName =
            (case runtimeTreeItem of
               None \<Rightarrow> showRuntimeQuickPickBox ''Select the Fabric runtime to toggle development mode''
             | Some item \<Rightarrow> Some (getName item))
      in case runtimeManager_get w runtimeName of
           None \<Rightarrow> Inl (TypeError ''Cannot read property 'isDevelopmentMode' of undefined'')
         | Some runtime \<Rightarrow>
             (let oldDevelopmentMode = isDevelopmentMode runtime;
                  newDevelopmentMode = (\<not> oldDevelopmentMode);
                  runtime1 = setDevelopmentMode newDevelopmentMode runtime;
                  (isRunningResult, runtime2) = isRunning runtime1
              in if \<not> isRunningResult
                 then Inr (runtimeManager_store runtimeName runtime2 w)
                 else Inr (runtimeManager_store runtimeName (restart runtime2)
                             (progress_report
                                (''Restarting Fabric runtime '' @ js_string runtimeName) w))))"

subsection \<open>A small host to run the functions on\<close>

text \<open>
  An executable host for the examples: the file system is a list of paths, each marked as
  a directory or a file. \<open>example_glob\<close> finds the files under \<^verbatim>\<open>cwd\<close> that end with
  the extension of the pattern (the pattern without its \<^verbatim>\<open>**/*\<close>) and do not lie in the
  ignored directory (the \<^verbatim>\<open>ignore\<close> pattern without its two \<^verbatim>\<open>**\<close>),
  \<open>example_mkdirp\<close> creates the missing directories of the chain, \<open>example_copy\<close> copies
  every entry under the source, and \<open>example_join\<close> joins with single slashes.
\<close>

type_synonym example_fs = "(string \<times> bool) list"

definition endsWith :: "string \<Rightarrow> string \<Rightarrow> bool" where
  "endsWith s p = (drop (length s - length p) s = p)"

fun contains :: "string \<Rightarrow> string \<Rightarrow> bool" where
  "contains [] p = (p = [])"
| "contains (c # cs) p = (startsWith (c # cs) p \<or> contains cs p)"

fun collapse :: "string \<Rightarrow> string" where
  "collapse (a # b # cs) =
     (if a = CHR ''/'' \<and> b = CHR ''/'' then collapse (b # cs) else a # collapse (b # cs))"
| "collapse cs = cs"

fun slashed :: "string list \<Rightarrow> string" where
  "slashed [] = []"
| "slashed [s] = s"
| "slashed (s # ss) = s @ ''/'' @ slashed ss"

definition example_join :: "string list \<Rightarrow> string" where
  "example_join segments = collapse (slashed segments)"

fun chain :: "string \<Rightarrow> string \<Rightarrow> string list" where
  "chain acc [] = [acc]"
| "chain acc (c # cs) =
     (if c = CHR ''/'' \<and> acc \<noteq> [] then acc # chain (acc @ [c]) cs else chain (acc @ [c]) cs)"

definition example_glob :: "string \<Rightarrow> string \<Rightarrow> string \<Rightarrow> example_fs \<Rightarrow> string list" where
  "example_glob pattern cwd ignore files =
     [drop (length cwd + 1) p. (p, isDir) \<leftarrow> files, \<not> isDir, startsWith p (cwd @ ''/''),
        endsWith p (drop 4 pattern), \<not> contains p (drop 2 (take (length ignore - 2) ignore))]"

definition example_stat :: "string \<Rightarrow> example_fs \<Rightarrow> error + bool" where
  "example_stat p files =
     (case map_of files p of
        None \<Rightarrow> Inl (SystemError ''ENOENT'' (''ENOENT: no such file or directory, stat '' @ p))
      | Some isDir \<Rightarrow> Inr isDir)"

definition example_readFile :: "string \<Rightarrow> example_fs \<Rightarrow> error + string" where
  "example_readFile p files =
     (if map_of files p = Some False then Inr p
      else Inl (SystemError ''ENOENT'' (''ENOENT: no such file or directory, open '' @ p)))"

definition example_mkdirp :: "string option \<Rightarrow> example_fs \<Rightarrow> error option \<times> example_fs" where
  "example_mkdirp dir files =
     (case dir of
        None \<Rightarrow> (Some (TypeError ''Path must be a string. Received undefined''), files)
      | Some d \<Rightarrow> (None, files @ [(p, True). p \<leftarrow> chain [] d, map_of files p = None]))"

definition example_copy ::
  "string option \<Rightarrow> string option \<Rightarrow> example_fs \<Rightarrow> error option \<times> example_fs" where
  "example_copy src dest files =
     (case (src, dest) of
        (Some s, Some d) \<Rightarrow>
          (None, files @ [(d @ drop (length s) p, isDir).
                            (p, isDir) \<leftarrow> files, startsWith p (s @ ''/'')])
      | _ \<Rightarrow> (Some (TypeError ''Path must be a string. Received undefined''), files))"

text \<open>
  One open folder \<^verbatim>\<open>foo\<close> at \<^verbatim>\<open>/ws/foo\<close>, packages under \<^verbatim>\<open>/pkgs\<close>, a manifest
  with name \<^verbatim>\<open>foo\<close> and version \<^verbatim>\<open>1.2.3\<close>, and every prompt cancelled.
\<close>

definition example_host :: "example_fs host" where
  "example_host = \<lparr>
     packageDirectory = ''/pkgs'',
     homeDir = (\<lambda>p. ''/home/dev'' @ p),
     getWorkspaceFolders = Inr [''foo''],
     showGolangQuickPickBox = (\<lambda>prompt. None),
     workspaceFolders = Some [\<lparr>folder_name = ''foo'', folder_uri_path = ''/ws/foo''\<rparr>],
     showInputBox = (\<lambda>prompt. None),
     glob = example_glob,
     path_join = example_join,
     readFile = example_readFile,
     JSON_parse = (\<lambda>contents. Inr \<lparr>manifest_name = Some ''foo'', manifest_version = Some ''1.2.3''\<rparr>),
     stat = example_stat,
     mkdirp = example_mkdirp,
     copy = example_copy\<rparr>"

definition example_world :: "example_fs \<Rightarrow> example_fs world" where
  "example_world files =
     \<lparr>fs = files, outputLog = [], errorMessages = [], informationMessages = [],
      executedCommands = []\<rparr>"

text \<open>The world once \<open>chooseWorkspace\<close> has logged its line.\<close>

definition chosen_world :: "example_fs \<Rightarrow> example_fs world" where
  "chosen_world files =
     \<lparr>fs = files, outputLog = [''Getting workspace folders...''], errorMessages = [],
      informationMessages = [], executedCommands = []\<rparr>"

definition js_project :: example_fs where
  "js_project =
     [(''/ws/foo'', True), (''/ws/foo/package.json'', False), (''/ws/foo/index.js'', False),
      (''/ws/foo/node_modules'', True), (''/ws/foo/node_modules/dep.ts'', False)]"

definition other_js_project :: example_fs where
  "other_js_project =
     [(''/ws/foo'', True), (''/ws/foo/package.json'', False), (''/ws/foo/lib/contract.js'', False)]"

definition ts_js_go_project :: example_fs where
  "ts_js_go_project =
     [(''/ws/foo'', True), (''/ws/foo/package.json'', False), (''/ws/foo/chaincode.ts'', False),
      (''/ws/foo/chaincode.js'', False), (''/ws/foo/chaincode.go'', False)]"

text \<open>The package directory after \<^verbatim>\<open>foo\<close> 1.2.3 was packaged, and with a file in its place.\<close>

definition packaged_js_project :: example_fs where
  "packaged_js_project = js_project @ [(''/pkgs/javascript/foo@v1.2.3'', True)]"

definition blocked_js_project :: example_fs where
  "blocked_js_project = js_project @ [(''/pkgs/javascript/foo@v1.2.3'', False)]"

definition packaged_go_project :: example_fs where
  "packaged_go_project =
     [(''/ws/foo'', True), (''/ws/foo/chaincode.go'', False),
      (''/pkgs/go/src/mycc@vundefined'', True)]"

definition ts_go_project :: example_fs where
  "ts_go_project =
     [(''/ws/foo'', True), (''/ws/foo/chaincode.ts'', False), (''/ws/foo/chaincode.go'', False)]"

definition go_project :: example_fs where
  "go_project = [(''/ws/foo'', True), (''/ws/foo/chaincode.go'', False)]"

definition text_project :: example_fs where
  "text_project = [(''/ws/foo'', True), (''/ws/foo/text.txt'', False)]"

text \<open>The hosts of the examples, each the one above with one answer changed.\<close>

definition empty_name_manifest_host :: "example_fs host" where
  "empty_name_manifest_host =
     example_host\<lparr>JSON_parse :=
       (\<lambda>contents. Inr \<lparr>manifest_name = Some '''', manifest_version = Some ''0.0.1''\<rparr>)\<rparr>"

definition denied_host :: "example_fs host" where
  "denied_host =
     example_host\<lparr>stat := (\<lambda>p files. Inl (SystemError ''EACCES'' ''EACCES: permission denied, stat''))\<rparr>"

definition no_retrieval_host :: "example_fs host" where
  "no_retrieval_host =
     example_host\<lparr>getWorkspaceFolders := Inl (Error ''workspace folders unavailable'')\<rparr>"

definition no_folders_host :: "example_fs host" where
  "no_folders_host = example_host\<lparr>getWorkspaceFolders := Inr [], workspaceFolders := Some []\<rparr>"

definition cancelled_version_host :: "example_fs host" where
  "cancelled_version_host =
     example_host\<lparr>showInputBox :=
       (\<lambda>prompt. if prompt = ''Enter a name for your go package'' then Some ''mycc'' else None)\<rparr>"

definition confirmed_version_host :: "example_fs host" where
  "confirmed_version_host =
     example_host\<lparr>showInputBox :=
       (\<lambda>prompt. if prompt = ''Enter a name for your go package'' then Some ''goProject''
                 else Some ''0.0.1'')\<rparr>"

definition empty_name_host :: "example_fs host" where
  "empty_name_host =
     example_host\<lparr>showInputBox :=
       (\<lambda>prompt. if prompt = ''Enter a name for your go package'' then Some ''''
                 else Some ''0.0.1'')\<rparr>"

definition example_runtimes :: runtime_world where
  "example_runtimes =
     \<lparr>runtimes = [''local_fabric'' \<mapsto> \<lparr>developmentMode = False, running = True, calls = []\<rparr>],
      progressReports = []\<rparr>"

definition stopped_runtimes :: runtime_world where
  "stopped_runtimes =
     \<lparr>runtimes = [''stopped'' \<mapsto> \<lparr>developmentMode = True, running = False, calls = []\<rparr>],
      progressReports = []\<rparr>"

subsection \<open>The two calls of fs-extra on a disk\<close>

text \<open>
  Modelled from the spec: \<^verbatim>\<open>fs-extra\<close> is not among the sources, and the spec says what
  its two calls are to do: create the full destination directory chain, including the
  intermediate directories, and recursively copy every file and subdirectory from the
  workspace root into the destination, preserving the relative structure. A disk is a
  list of entries, each a path (its segments from the root) and a node, the first entry
  of a path being the one in force. Paths are absolute and normalised, as \<^verbatim>\<open>path.join\<close>
  and the \<^verbatim>\<open>uri\<close> of a workspace folder give them.
\<close>

datatype node = File string | Directory

type_synonym disk = "(string list \<times> node) list"

definition entry :: "disk \<Rightarrow> string list \<Rightarrow> node option" where
  "entry d p = map_of d p"

fun is_file :: "node option \<Rightarrow> bool" where
  "is_file (Some (File c)) = True"
| "is_file _ = False"

fun split_segments :: "string \<Rightarrow> string \<Rightarrow> string list" where
  "split_segments acc [] = (if acc = [] then [] else [acc])"
| "split_segments acc (c # cs) =
     (if c = CHR ''/'' then (if acc = [] then split_segments [] cs
                             else acc # split_segments [] cs)
      else split_segments (acc @ [c]) cs)"

definition segments :: "string \<Rightarrow> string list" where
  "segments p = split_segments [] p"

text \<open>The directories of the chain of \<open>p\<close> that are not there yet, the root first.\<close>

definition missing_chain :: "disk \<Rightarrow> string list \<Rightarrow> disk" where
  "missing_chain d p = map (\<lambda>q. (q, Directory)) (filter (\<lambda>q. entry d q = None) (prefixes p))"

text \<open>
  \<^verbatim>\<open>mkdirp(dir)\<close>: every directory of the chain that is missing is created. A file in the
  chain makes the call fail.
\<close>

definition fs_mkdirp :: "string option \<Rightarrow> disk \<Rightarrow> error option \<times> disk" where
  "fs_mkdirp dir d =
     (case dir of
        None \<Rightarrow> (Some (TypeError ''Path must be a string. Received undefined''), d)
      | Some p \<Rightarrow>
          (if is_file (entry d (segments p))
             then (Some (SystemError ''EEXIST'' (''EEXIST: file already exists, mkdir '' @ p)), d)
           else if list_ex (\<lambda>q. is_file (entry d q)) (prefixes (segments p))
             then (Some (SystemError ''ENOTDIR'' (''ENOTDIR: not a directory, mkdir '' @ p)), d)
           else (None, missing_chain d (segments p) @ d)))"

text \<open>The entries in force at or below \<open>src\<close>, each with its path relative to \<open>src\<close>.\<close>

definition subtree :: "disk \<Rightarrow> string list \<Rightarrow> disk" where
  "subtree d src =
     map (\<lambda>(p, n). (drop (length src) p, n))
       (filter (\<lambda>(p, n). prefix src p \<and> entry d p = Some n) d)"

text \<open>A directory cannot replace a file, nor a file a directory.\<close>

fun clash :: "node \<Rightarrow> node option \<Rightarrow> bool" where
  "clash Directory (Some (File c)) = True"
| "clash (File c) (Some Directory) = True"
| "clash n m = False"

text \<open>
  \<^verbatim>\<open>copy(src, dest)\<close> with no options: a file is copied over the destination; of a
  directory every entry at or below it is copied to the same relative path below the
  destination, over what is there, with no filter. The missing directories above the
  destination are created. The call fails when the source is missing, when the
  destination is the source or lies inside it, when a file is in the chain of the
  destination, and when a directory would replace a file or a file a directory. On a
  failure the model leaves the disk as it was (the call itself may leave a part of the
  copy behind).
\<close>

definition fs_copy :: "string option \<Rightarrow> string option \<Rightarrow> disk \<Rightarrow> error option \<times> disk" where
  "fs_copy src dest d =
     (case (src, dest) of
        (Some s, Some t) \<Rightarrow>
          (case entry d (segments s) of
             None \<Rightarrow> (Some (SystemError ''ENOENT'' (''ENOENT: no such file or directory, lstat '' @ s)), d)
           | Some n \<Rightarrow>
               (if segments s = segments t
                  then (Some (Error ''Source and destination must not be the same.''), d)
                else if n = Directory \<and> prefix (segments s) (segments t)
                  then (Some (Error (''Cannot copy '' @ s @ '' to a subdirectory of itself, '' @ t)), d)
                else if list_ex (\<lambda>q. is_file (entry d q)) (butlast (prefixes (segments t)))
                  then (Some (SystemError ''ENOTDIR'' (''ENOTDIR: not a directory, mkdir '' @ t)), d)
                else if list_ex (\<lambda>(rel, m). clash m (entry d (segments t @ rel)))
                          (subtree d (segments s))
                  then (Some (Error (''Cannot overwrite '' @ t @ '' with '' @ s)), d)
                else (None, map (\<lambda>(rel, m). (segments t @ rel, m)) (subtree d (segments s))
                              @ missing_chain d (butlast (segments t)) @ d)))
      | _ \<Rightarrow> (Some (TypeError ''Path must be a string. Received undefined''), d))"

text \<open>\<^verbatim>\<open>stat\<close>, \<^verbatim>\<open>readFile\<close> and \<^verbatim>\<open>Glob\<close> on a disk, for the examples.\<close>

definition fs_stat :: "string \<Rightarrow> disk \<Rightarrow> error + bool" where
  "fs_stat p d =
     (case entry d (segments p) of
        None \<Rightarrow> Inl (SystemError ''ENOENT'' (''ENOENT: no such file or directory, stat '' @ p))
      | Some n \<Rightarrow> Inr (n = Directory))"

definition fs_readFile :: "string \<Rightarrow> disk \<Rightarrow> error + string" where
  "fs_readFile p d =
     (case entry d (segments p) of
        None \<Rightarrow> Inl (SystemError ''ENOENT'' (''ENOENT: no such file or directory, open '' @ p))
      | Some Directory \<Rightarrow> Inl (SystemError ''EISDIR'' ''EISDIR: illegal operation on a directory, read'')
      | Some (File c) \<Rightarrow> Inr c)"

definition fs_glob :: "string \<Rightarrow> string \<Rightarrow> string \<Rightarrow> disk \<Rightarrow> string list" where
  "fs_glob pattern cwd ignore d =
     [slashed rel. (rel, n) \<leftarrow> subtree d (segments cwd), is_file (Some n),
        endsWith (last rel) (drop 4 pattern), ''node_modules'' \<notin> set rel]"

definition disk_host :: "disk host" where
  "disk_host = \<lparr>
     packageDirectory = ''/pkgs'',
     homeDir = (\<lambda>p. ''/home/dev'' @ p),
     getWorkspaceFolders = Inr [''foo''],
     showGolangQuickPickBox = (\<lambda>prompt. None),
     workspaceFolders = Some [\<lparr>folder_name = ''foo'', folder_uri_path = ''/ws/foo''\<rparr>],
     showInputBox = (\<lambda>prompt. None),
     glob = fs_glob,
     path_join = example_join,
     readFile = fs_readFile,
     JSON_parse = (\<lambda>contents. Inr \<lparr>manifest_name = Some ''foo'', manifest_version = Some ''1.2.3''\<rparr>),
     stat = fs_stat,
     mkdirp = fs_mkdirp,
     copy = fs_copy\<rparr>"

definition js_disk :: disk where
  "js_disk =
     [([], Directory), ([''ws''], Directory), ([''ws'', ''foo''], Directory),
      ([''ws'', ''foo'', ''package.json''], File ''name foo, version 1.2.3''),
      ([''ws'', ''foo'', ''index.js''], File ''module.exports = {}''),
      ([''ws'', ''foo'', ''test''], Directory),
      ([''ws'', ''foo'', ''test'', ''notes.txt''], File ''not a source file'')]"

definition disk_world :: "disk \<Rightarrow> string list \<Rightarrow> disk world" where
  "disk_world d logged =
     \<lparr>fs = d, outputLog = logged, errorMessages = [], informationMessages = [],
      executedCommands = []\<rparr>"

section \<open>Properties\<close>

subsection \<open>What never touches the file system\<close>

lemma getLanguage_fs: "fs (snd (getLanguage env wd w)) = fs w"
  by (simp add: getLanguage_def showErrorMessage_def split: option.splits)

lemma chooseWorkspace_fs: "fs (snd (chooseWorkspace env w)) = fs w"
  by (simp add: chooseWorkspace_def Let_def showErrorMessage_def outputAdapter_log_def
           split: sum.splits option.splits)

lemma golangPackageAndVersion_fs: "fs (snd (golangPackageAndVersion env w)) = fs w"
  by (simp add: golangPackageAndVersion_def Let_def showErrorMessage_def)

lemma packageJsonNameAndVersion_fs: "fs (snd (packageJsonNameAndVersion env wd w)) = fs w"
  by (simp add: packageJsonNameAndVersion_def Let_def showErrorMessage_def
           split: option.splits sum.splits)

lemma chooseWorkspace_messages:
  assumes "chooseWorkspace env w0 = (Inr wd, w)"
  shows "errorMessages w = errorMessages w0 \<and> informationMessages w = informationMessages w0"
  using assms
  by (auto simp: chooseWorkspace_def Let_def showErrorMessage_def outputAdapter_log_def
           split: sum.splits option.splits if_splits)

lemma getLanguage_messages:
  assumes "getLanguage env wd w = (Inr language, w1)"
  shows "errorMessages w1 = errorMessages w \<and> informationMessages w1 = informationMessages w"
  using assms by (auto simp: getLanguage_def split: option.splits if_splits)

lemma resolved_messages:
  assumes "(if language = ''/go/src/'' then golangPackageAndVersion env w1
            else packageJsonNameAndVersion env wd w1) = (Inr props, w2)"
  shows "errorMessages w2 = errorMessages w1"
  using assms
  by (auto simp: golangPackageAndVersion_def packageJsonNameAndVersion_def Let_def
           split: if_splits option.splits sum.splits)

lemma resolved_fs:
  assumes lang: "getLanguage env wd w = (Inr (Some language), w1)"
    and meta: "(if language = ''/go/src/'' then golangPackageAndVersion env w1
                else packageJsonNameAndVersion env wd w1) = (Inr (Some props), w2)"
  shows "fs w2 = fs w"
proof -
  have "fs w1 = fs w"
    using getLanguage_fs [of env wd w] lang by simp
  moreover have "fs w2 = fs w1"
    using meta golangPackageAndVersion_fs [of env w1] packageJsonNameAndVersion_fs [of env wd w1]
    by (auto split: if_splits)
  ultimately show ?thesis by simp
qed

subsection \<open>The destination planner after the metadata is resolved\<close>

lemma getLanguage_segments:
  "getLanguage env wd w = (Inr (Some language), w1) \<Longrightarrow>
     language \<in> {''/javascript/'', ''/typescript/'', ''/go/src/''}"
  by (auto simp: getLanguage_def split: option.splits if_splits)

lemma getFinalDirectory_resolved:
  assumes "getLanguage env wd w = (Inr (Some language), w1)"
    and "(if language = ''/go/src/'' then golangPackageAndVersion env w1
          else packageJsonNameAndVersion env wd w1) = (Inr (Some props), w2)"
  shows "getFinalDirectory env pd wd w =
     (let dir = path_join env [pd, language,
                  js_string (workspacePackageName props) @ ''@v'' @
                  js_string (workspacePackageVersion props)]
      in case stat env dir (fs w2) of
           Inl err \<Rightarrow> probeCatch dir err w2
         | Inr isDirectory \<Rightarrow>
             (if isDirectory
              then (let message = (if language = ''/go/src/'' then goExistsMessage
                                   else packageJsonExistsMessage)
                    in probeCatch dir (Error message) (showErrorMessage message w2))
              else (Inr None, w2)))"
  using assms by (simp add: getFinalDirectory_def)

lemma probeCatch_Some: "probeCatch dir err w = (Inr (Some d), w') \<Longrightarrow> d = dir"
  by (simp add: probeCatch_def split: if_splits)

lemma getFinalDirectory_path:
  assumes run: "getFinalDirectory env pd wd w = (Inr (Some d), w')"
    and lang: "getLanguage env wd w = (Inr (Some language), w1)"
    and meta: "(if language = ''/go/src/'' then golangPackageAndVersion env w1
                else packageJsonNameAndVersion env wd w1) = (Inr (Some props), w2)"
  shows "d = path_join env [pd, language,
               js_string (workspacePackageName props) @ ''@v'' @
               js_string (workspacePackageVersion props)]"
  using run getFinalDirectory_resolved [OF lang meta, of pd]
  by (auto simp: Let_def split: sum.splits if_splits dest: probeCatch_Some)

lemma packageJson_missing:
  assumes "readFile env (path_join env [wd, ''/package.json'']) (fs w) = Inr contents"
    and "JSON_parse env contents = Inr m"
    and "\<not> truthy (manifest_name m) \<or> \<not> truthy (manifest_version m)"
  shows "packageJsonNameAndVersion env (Some wd) w =
           (Inl (Error packageJsonMessage), showErrorMessage packageJsonMessage w)"
  using assms by (auto simp: packageJsonNameAndVersion_def Let_def)

subsection \<open>What the two calls leave on the disk\<close>

lemma entry_append:
  "entry (a @ b) p = (case entry a p of Some n \<Rightarrow> Some n | None \<Rightarrow> entry b p)"
  by (simp add: entry_def map_add_def split: option.splits)

lemma map_of_constant:
  "map_of (map (\<lambda>q. (q, c)) xs) q = (if q \<in> set xs then Some c else None)"
  by (induction xs) auto

lemma entry_missing_chain:
  "entry (missing_chain d p) q =
     (if prefix q p \<and> entry d q = None then Some Directory else None)"
  unfolding missing_chain_def entry_def [of "map f xs" for f xs] map_of_constant
  by (simp add: in_set_prefixes)

lemma subtree_iff:
  "(rel, n) \<in> set (subtree d src) \<longleftrightarrow> entry d (src @ rel) = Some n"
proof
  assume "(rel, n) \<in> set (subtree d src)"
  then obtain p where p: "(p, n) \<in> set d" "prefix src p" "entry d p = Some n"
      "rel = drop (length src) p"
    by (auto simp: subtree_def)
  from p(2,4) have "p = src @ rel"
    by (auto simp: prefix_def)
  with p(3) show "entry d (src @ rel) = Some n"
    by simp
next
  assume live: "entry d (src @ rel) = Some n"
  then have "(src @ rel, n) \<in> set d"
    by (simp add: entry_def map_of_SomeD)
  with live show "(rel, n) \<in> set (subtree d src)"
    by (force simp: subtree_def)
qed

lemma entry_copied:
  "entry (map (\<lambda>(rel, m). (t @ rel, m)) (subtree d s)) q =
     (if prefix t q then entry d (s @ drop (length t) q) else None)"
proof (cases "entry (map (\<lambda>(rel, m). (t @ rel, m)) (subtree d s)) q")
  case None
  then have absent: "q \<notin> fst ` set (map (\<lambda>(rel, m). (t @ rel, m)) (subtree d s))"
    by (simp add: entry_def map_of_eq_None_iff)
  have "entry d (s @ drop (length t) q) = None" if "prefix t q"
  proof (rule ccontr)
    assume "entry d (s @ drop (length t) q) \<noteq> None"
    then obtain n where "entry d (s @ drop (length t) q) = Some n"
      by auto
    then have "(drop (length t) q, n) \<in> set (subtree d s)"
      by (simp add: subtree_iff)
    then have "(t @ drop (length t) q, n) \<in> set (map (\<lambda>(rel, m). (t @ rel, m)) (subtree d s))"
      by force
    moreover from that have "t @ drop (length t) q = q"
      by (auto simp: prefix_def)
    ultimately show False
      using absent by force
  qed
  with None show ?thesis
    by simp
next
  case (Some n)
  then have "map_of (map (\<lambda>(rel, m). (t @ rel, m)) (subtree d s)) q = Some n"
    by (simp only: entry_def)
  then have "(q, n) \<in> set (map (\<lambda>(rel, m). (t @ rel, m)) (subtree d s))"
    by (rule map_of_SomeD)
  then obtain rel where rel: "q = t @ rel" "(rel, n) \<in> set (subtree d s)"
    by auto
  then have "entry d (s @ rel) = Some n"
    by (simp add: subtree_iff)
  with Some rel(1) show ?thesis
    by simp
qed

lemma fs_mkdirp_entry:
  assumes "\<forall>q. prefix q (segments p) \<longrightarrow> \<not> is_file (entry d q)"
  shows "fs_mkdirp (Some p) d = (None, missing_chain d (segments p) @ d)"
    and "entry (missing_chain d (segments p) @ d) q =
           (if prefix q (segments p) \<and> entry d q = None then Some Directory else entry d q)"
proof -
  from assms have "\<not> is_file (entry d (segments p))"
    by simp
  moreover from assms have "\<not> list_ex (\<lambda>q. is_file (entry d q)) (prefixes (segments p))"
    by (simp add: list_ex_iff in_set_prefixes)
  ultimately show "fs_mkdirp (Some p) d = (None, missing_chain d (segments p) @ d)"
    by (simp add: fs_mkdirp_def)
  show "entry (missing_chain d (segments p) @ d) q =
           (if prefix q (segments p) \<and> entry d q = None then Some Directory else entry d q)"
    by (simp add: entry_append entry_missing_chain)
qed

lemma not_file_directory: "\<not> is_file m \<Longrightarrow> m \<noteq> None \<Longrightarrow> m = Some Directory"
  by (cases m rule: is_file.cases) simp_all

text \<open>
  The two calls one after the other, on a disk where the workspace root is a directory,
  nothing is at or below the destination, no file is in the chain of the destination,
  and the destination is not inside the workspace.
\<close>

lemma mkdirp_then_copy:
  assumes root: "entry d (segments wd) = Some Directory"
    and free: "\<forall>q. prefix (segments dir) q \<longrightarrow> entry d q = None"
    and above: "\<forall>q. prefix q (segments dir) \<longrightarrow> \<not> is_file (entry d q)"
    and outside: "\<not> prefix (segments wd) (segments dir)"
  obtains d1 d2 where "fs_mkdirp (Some dir) d = (None, d1)"
    and "fs_copy (Some wd) (Some dir) d1 = (None, d2)"
    and "\<forall>q. prefix q (segments dir) \<longrightarrow> entry d2 q = Some Directory"
    and "\<forall>rel. entry d2 (segments dir @ rel) = entry d (segments wd @ rel)"
    and "\<forall>q. \<not> prefix (segments dir) q \<and> \<not> prefix q (segments dir) \<longrightarrow> entry d2 q = entry d q"
proof -
  let ?s = "segments wd" and ?t = "segments dir"
  define d1 where "d1 = missing_chain d ?t @ d"
  have mk: "fs_mkdirp (Some dir) d = (None, d1)"
    unfolding d1_def by (rule fs_mkdirp_entry(1) [OF above])
  have e1: "entry d1 q = (if prefix q ?t \<and> entry d q = None then Some Directory else entry d q)"
    for q
    unfolding d1_def by (rule fs_mkdirp_entry(2) [OF above])
  have chain1: "entry d1 q = Some Directory" if "prefix q ?t" for q
  proof (cases "entry d q = None")
    case True
    with that show ?thesis by (simp add: e1)
  next
    case False
    moreover from above that have "\<not> is_file (entry d q)" by simp
    ultimately have "entry d q = Some Directory" by (rule not_file_directory [rotated])
    with False show ?thesis by (simp add: e1)
  qed
  have kept: "entry d1 (?s @ rel) = entry d (?s @ rel)" for rel
  proof (cases "entry d (?s @ rel) = None")
    case True
    have "\<not> prefix (?s @ rel) ?t"
      using outside by (meson append_prefixD)
    with True show ?thesis by (simp add: e1)
  next
    case False
    then show ?thesis by (simp add: e1)
  qed
  have below: "entry d1 (?t @ rel) = None" if "rel \<noteq> []" for rel
  proof -
    from that have "\<not> prefix (?t @ rel) ?t"
      by (simp add: prefix_def)
    moreover from free have "entry d (?t @ rel) = None"
      by simp
    ultimately show ?thesis by (simp add: e1)
  qed
  define d2 where
    "d2 = map (\<lambda>(rel, m). (?t @ rel, m)) (subtree d1 ?s) @ missing_chain d1 (butlast ?t) @ d1"
  have src1: "entry d1 ?s = Some Directory"
    using kept [of "[]"] root by simp
  have differ: "?s \<noteq> ?t"
    using outside by auto
  have no_file: "\<not> list_ex (\<lambda>q. is_file (entry d1 q)) (butlast (prefixes ?t))"
  proof -
    have "\<not> is_file (entry d1 q)" if "q \<in> set (butlast (prefixes ?t))" for q
    proof -
      from that have "prefix q ?t"
        by (meson in_set_butlastD in_set_prefixes)
      then show ?thesis by (simp add: chain1)
    qed
    then show ?thesis by (auto simp: list_ex_iff)
  qed
  have no_clash: "\<not> list_ex (\<lambda>(rel, m). clash m (entry d1 (?t @ rel))) (subtree d1 ?s)"
  proof -
    have "\<not> clash m (entry d1 (?t @ rel))" if "(rel, m) \<in> set (subtree d1 ?s)" for rel m
    proof (cases "rel = []")
      case True
      with that have "entry d1 ?s = Some m"
        by (simp add: subtree_iff)
      with src1 have "m = Directory" by simp
      moreover have "entry d1 ?t = Some Directory"
        by (simp add: chain1)
      ultimately show ?thesis using True by simp
    next
      case False
      then show ?thesis by (simp add: below)
    qed
    then show ?thesis by (auto simp: list_ex_iff)
  qed
  have cp: "fs_copy (Some wd) (Some dir) d1 = (None, d2)"
    using src1 differ outside no_file no_clash by (simp add: fs_copy_def d2_def)
  have e2: "entry d2 q = (if prefix ?t q \<and> entry d1 (?s @ drop (length ?t) q) \<noteq> None
                          then entry d1 (?s @ drop (length ?t) q)
                          else if prefix q (butlast ?t) \<and> entry d1 q = None then Some Directory
                          else entry d1 q)" for q
    unfolding d2_def
    by (auto simp: entry_append entry_copied entry_missing_chain split: option.splits)
  have chain2: "entry d2 q = Some Directory" if "prefix q ?t" for q
  proof (cases "q = ?t")
    case True
    then show ?thesis
      using src1 by (simp add: e2)
  next
    case False
    with that have "\<not> prefix ?t q"
      by (auto simp: prefix_order.antisym)
    then show ?thesis
      using that by (simp add: e2 chain1)
  qed
  have copied: "entry d2 (?t @ rel) = entry d (?s @ rel)" for rel
  proof (cases "entry d (?s @ rel) = None")
    case True
    then have none1: "entry d1 (?s @ rel) = None"
      by (simp add: kept)
    have "rel \<noteq> []"
      using True root by auto
    then have "entry d1 (?t @ rel) = None"
      by (rule below)
    moreover have "\<not> prefix (?t @ rel) (butlast ?t)"
    proof
      assume "prefix (?t @ rel) (butlast ?t)"
      then have "length (?t @ rel) \<le> length (butlast ?t)"
        by (rule prefix_length_le)
      with \<open>rel \<noteq> []\<close> show False
        by (cases rel) auto
    qed
    ultimately show ?thesis
      using True none1 by (simp add: e2)
  next
    case False
    then show ?thesis
      by (simp add: e2 kept)
  qed
  have frame: "entry d2 q = entry d q" if "\<not> prefix ?t q \<and> \<not> prefix q ?t" for q
  proof -
    from that have "\<not> prefix q (butlast ?t)"
      by (meson prefix_order.trans prefixeq_butlast)
    with that show ?thesis
      by (simp add: e2 e1)
  qed
  from mk cp chain2 copied frame show ?thesis
    by (intro that [of d1 d2]) auto
qed

lemma free_below:
  assumes "list_all (\<lambda>(p, n). \<not> prefix t p) d"
  shows "\<forall>q. prefix t q \<longrightarrow> entry d q = None"
proof (intro allI impI)
  fix q
  assume below: "prefix t q"
  show "entry d q = None"
  proof (rule ccontr)
    assume "entry d q \<noteq> None"
    then obtain n where "map_of d q = Some n"
      by (auto simp: entry_def)
    then have "(q, n) \<in> set d"
      by (rule map_of_SomeD)
    with assms have "\<not> prefix t q"
      by (auto simp: list_all_iff)
    with below show False
      by simp
  qed
qed

lemma no_file_above:
  assumes "list_all (\<lambda>q. \<not> is_file (entry d q)) (prefixes t)"
  shows "\<forall>q. prefix q t \<longrightarrow> \<not> is_file (entry d q)"
  using assms by (simp add: list_all_iff in_set_prefixes)

text \<open>What \<open>createAndPackage\<close> returns when the two calls succeed, for every host.\<close>

lemma createAndPackage_succeeds:
  assumes "mkdirp env (Some dir) (fs w) = (None, fs1)"
    and "copy env (Some wd) (Some dir) fs1 = (None, fs2)"
  shows "createAndPackage env (Some dir) (Some wd) w =
           (Inr (), w\<lparr>fs := fs2,
                      informationMessages :=
                        informationMessages w @ [''Smart Contract packaged: '' @ dir]\<rparr>)"
  using assms by (simp add: createAndPackage_def showInformationMessage_def)

subsection \<open>The statements of the specification\<close>

text \<open>
  C1. On every workspace folder the language detector follows the precedence of the
  source, on the three file lists found there with \<^verbatim>\<open>node_modules\<close> ignored: both \<^verbatim>\<open>.js\<close> and \<^verbatim>\<open>.ts\<close> files give
  TypeScript, whatever \<^verbatim>\<open>.go\<close> files there are; \<^verbatim>\<open>.ts\<close> files without \<^verbatim>\<open>.js\<close> files
  fail with the message about compiling, also when \<^verbatim>\<open>.go\<close> files are there; otherwise
  \<^verbatim>\<open>.go\<close> files give Go; otherwise \<^verbatim>\<open>.js\<close> files give JavaScript; otherwise there is no
  language, and the caller \<open>getFinalDirectory\<close> fails with the message about the language.
\<close>

theorem getLanguage_precedence:
  "(jsFiles env wd w \<noteq> [] \<and> tsFiles env wd w \<noteq> [] \<longrightarrow>
      getLanguage env (Some wd) w = (Inr (Some ''/typescript/''), w))
   \<and> (tsFiles env wd w \<noteq> [] \<and> jsFiles env wd w = [] \<longrightarrow>
      getLanguage env (Some wd) w = (Inl (Error compileMessage), showErrorMessage compileMessage w))
   \<and> (tsFiles env wd w = [] \<and> goFiles env wd w \<noteq> [] \<longrightarrow>
      getLanguage env (Some wd) w = (Inr (Some ''/go/src/''), w))
   \<and> (tsFiles env wd w = [] \<and> goFiles env wd w = [] \<and> jsFiles env wd w \<noteq> [] \<longrightarrow>
      getLanguage env (Some wd) w = (Inr (Some ''/javascript/''), w))
   \<and> (tsFiles env wd w = [] \<and> goFiles env wd w = [] \<and> jsFiles env wd w = [] \<longrightarrow>
      getLanguage env (Some wd) w = (Inr None, w)
      \<and> getFinalDirectory env pd (Some wd) w =
          (Inl (Error languageMessage), showErrorMessage languageMessage w))"
proof (intro conjI impI)
  assume "jsFiles env wd w \<noteq> [] \<and> tsFiles env wd w \<noteq> []"
  then show "getLanguage env (Some wd) w = (Inr (Some ''/typescript/''), w)"
    by (simp add: getLanguage_def)
next
  assume "tsFiles env wd w \<noteq> [] \<and> jsFiles env wd w = []"
  then show "getLanguage env (Some wd) w =
      (Inl (Error compileMessage), showErrorMessage compileMessage w)"
    by (simp add: getLanguage_def)
next
  assume "tsFiles env wd w = [] \<and> goFiles env wd w \<noteq> []"
  then show "getLanguage env (Some wd) w = (Inr (Some ''/go/src/''), w)"
    by (simp add: getLanguage_def)
next
  assume "tsFiles env wd w = [] \<and> goFiles env wd w = [] \<and> jsFiles env wd w \<noteq> []"
  then show "getLanguage env (Some wd) w = (Inr (Some ''/javascript/''), w)"
    by (simp add: getLanguage_def)
next
  assume none: "tsFiles env wd w = [] \<and> goFiles env wd w = [] \<and> jsFiles env wd w = []"
  then show unknown: "getLanguage env (Some wd) w = (Inr None, w)"
    by (simp add: getLanguage_def)
  then show "getFinalDirectory env pd (Some wd) w =
      (Inl (Error languageMessage), showErrorMessage languageMessage w)"
    by (simp add: getFinalDirectory_def)
qed

theorem getLanguage_precedence_witness:
  "jsFiles example_host ''/ws/foo'' (example_world ts_js_go_project) \<noteq> []
   \<and> tsFiles example_host ''/ws/foo'' (example_world ts_js_go_project) \<noteq> []
   \<and> goFiles example_host ''/ws/foo'' (example_world ts_js_go_project) \<noteq> []
   \<and> getLanguage example_host (Some ''/ws/foo'') (example_world ts_js_go_project) =
       (Inr (Some ''/typescript/''), example_world ts_js_go_project)
   \<and> tsFiles example_host ''/ws/foo'' (example_world ts_go_project) \<noteq> []
   \<and> jsFiles example_host ''/ws/foo'' (example_world ts_go_project) = []
   \<and> goFiles example_host ''/ws/foo'' (example_world ts_go_project) \<noteq> []
   \<and> getLanguage example_host (Some ''/ws/foo'') (example_world ts_go_project) =
       (Inl (Error compileMessage),
        showErrorMessage compileMessage (example_world ts_go_project))
   \<and> tsFiles example_host ''/ws/foo'' (example_world go_project) = []
   \<and> goFiles example_host ''/ws/foo'' (example_world go_project) \<noteq> []
   \<and> getLanguage example_host (Some ''/ws/foo'') (example_world go_project) =
       (Inr (Some ''/go/src/''), example_world go_project)
   \<and> tsFiles example_host ''/ws/foo'' (example_world js_project) = []
   \<and> goFiles example_host ''/ws/foo'' (example_world js_project) = []
   \<and> jsFiles example_host ''/ws/foo'' (example_world js_project) \<noteq> []
   \<and> getLanguage example_host (Some ''/ws/foo'') (example_world js_project) =
       (Inr (Some ''/javascript/''), example_world js_project)
   \<and> tsFiles example_host ''/ws/foo'' (example_world text_project) = []
   \<and> goFiles example_host ''/ws/foo'' (example_world text_project) = []
   \<and> jsFiles example_host ''/ws/foo'' (example_world text_project) = []
   \<and> getLanguage example_host (Some ''/ws/foo'') (example_world text_project) =
       (Inr None, example_world text_project)
   \<and> getFinalDirectory example_host ''/pkgs'' (Some ''/ws/foo'') (example_world text_project) =
       (Inl (Error languageMessage),
        showErrorMessage languageMessage (example_world text_project))"
proof -
  have a: "jsFiles example_host ''/ws/foo'' (example_world ts_js_go_project) \<noteq> []
      \<and> tsFiles example_host ''/ws/foo'' (example_world ts_js_go_project) \<noteq> []"
    by code_simp
  have a': "goFiles example_host ''/ws/foo'' (example_world ts_js_go_project) \<noteq> []"
    by code_simp
  have b: "tsFiles example_host ''/ws/foo'' (example_world ts_go_project) \<noteq> []
      \<and> jsFiles example_host ''/ws/foo'' (example_world ts_go_project) = []"
    by code_simp
  have b': "goFiles example_host ''/ws/foo'' (example_world ts_go_project) \<noteq> []"
    by code_simp
  have c: "tsFiles example_host ''/ws/foo'' (example_world go_project) = []
      \<and> goFiles example_host ''/ws/foo'' (example_world go_project) \<noteq> []"
    by code_simp
  have d: "tsFiles example_host ''/ws/foo'' (example_world js_project) = []
      \<and> goFiles example_host ''/ws/foo'' (example_world js_project) = []
      \<and> jsFiles example_host ''/ws/foo'' (example_world js_project) \<noteq> []"
    by code_simp
  have e: "tsFiles example_host ''/ws/foo'' (example_world text_project) = []
      \<and> goFiles example_host ''/ws/foo'' (example_world text_project) = []
      \<and> jsFiles example_host ''/ws/foo'' (example_world text_project) = []"
    by code_simp
  note p = getLanguage_precedence [where env = example_host and wd = "''/ws/foo''"
             and pd = "''/pkgs''"]
  from a p [where w = "example_world ts_js_go_project"]
  have ra: "getLanguage example_host (Some ''/ws/foo'') (example_world ts_js_go_project) =
       (Inr (Some ''/typescript/''), example_world ts_js_go_project)"
    by blast
  from b p [where w = "example_world ts_go_project"]
  have rb: "getLanguage example_host (Some ''/ws/foo'') (example_world ts_go_project) =
       (Inl (Error compileMessage),
        showErrorMessage compileMessage (example_world ts_go_project))"
    by blast
  from c p [where w = "example_world go_project"]
  have rc: "getLanguage example_host (Some ''/ws/foo'') (example_world go_project) =
       (Inr (Some ''/go/src/''), example_world go_project)"
    by blast
  from d p [where w = "example_world js_project"]
  have rd: "getLanguage example_host (Some ''/ws/foo'') (example_world js_project) =
       (Inr (Some ''/javascript/''), example_world js_project)"
    by blast
  from e p [where w = "example_world text_project"]
  have re: "getLanguage example_host (Some ''/ws/foo'') (example_world text_project) =
       (Inr None, example_world text_project)
     \<and> getFinalDirectory example_host ''/pkgs'' (Some ''/ws/foo'') (example_world text_project) =
       (Inl (Error languageMessage),
        showErrorMessage languageMessage (example_world text_project))"
    by blast
  from a a' b b' c d e ra rb rc rd re show ?thesis by blast
qed

text \<open>
  Where the destination planner computes a path, it is
  \<^verbatim>\<open>join(packageDir, language, name + "@v" + version)\<close>, with the language segment the
  detector returned and the name and version the metadata function returned; so a second
  run that computes a path from the same package directory, segment, name and version
  computes the same path.
\<close>

lemma destination_path_where_computed:
  assumes run: "getFinalDirectory env pd wd w = (Inr (Some d), w')"
    and lang: "getLanguage env wd w = (Inr (Some language), w1)"
    and meta: "(if language = ''/go/src/'' then golangPackageAndVersion env w1
                else packageJsonNameAndVersion env wd w1) = (Inr (Some props), w2)"
    and run': "getFinalDirectory env pd wd' v = (Inr (Some d'), v')"
    and lang': "getLanguage env wd' v = (Inr (Some language), v1)"
    and meta': "(if language = ''/go/src/'' then golangPackageAndVersion env v1
                 else packageJsonNameAndVersion env wd' v1) = (Inr (Some props), v2)"
  shows "language \<in> {''/javascript/'', ''/typescript/'', ''/go/src/''}
       \<and> d = path_join env [pd, language,
                js_string (workspacePackageName props) @ ''@v'' @
                js_string (workspacePackageVersion props)]
       \<and> d' = d"
proof -
  have seg: "language \<in> {''/javascript/'', ''/typescript/'', ''/go/src/''}"
    by (rule getLanguage_segments [OF lang])
  have first: "d = path_join env [pd, language,
                js_string (workspacePackageName props) @ ''@v'' @
                js_string (workspacePackageVersion props)]"
    by (rule getFinalDirectory_path [OF run lang meta])
  have second: "d' = path_join env [pd, language,
                js_string (workspacePackageName props) @ ''@v'' @
                js_string (workspacePackageVersion props)]"
    by (rule getFinalDirectory_path [OF run' lang' meta'])
  from seg first second show ?thesis by simp
qed

lemma destination_path_example:
  "getFinalDirectory example_host ''/pkgs'' (Some ''/ws/foo'') (example_world js_project) =
     (Inr (Some ''/pkgs/javascript/foo@v1.2.3''), example_world js_project)
   \<and> getFinalDirectory example_host ''/pkgs'' (Some ''/ws/foo'') (chosen_world other_js_project) =
     (Inr (Some ''/pkgs/javascript/foo@v1.2.3''), chosen_world other_js_project)
   \<and> ''/javascript/'' \<in> {''/javascript/'', ''/typescript/'', ''/go/src/''}
   \<and> ''/pkgs/javascript/foo@v1.2.3'' =
       path_join example_host [''/pkgs'', ''/javascript/'',
         js_string (workspacePackageName
           \<lparr>workspacePackageName = Some ''foo'', workspacePackageVersion = Some ''1.2.3''\<rparr>)
         @ ''@v'' @
         js_string (workspacePackageVersion
           \<lparr>workspacePackageName = Some ''foo'', workspacePackageVersion = Some ''1.2.3''\<rparr>)]"
proof -
  have run: "getFinalDirectory example_host ''/pkgs'' (Some ''/ws/foo'') (example_world js_project)
      = (Inr (Some ''/pkgs/javascript/foo@v1.2.3''), example_world js_project)"
    by code_simp
  have lang: "getLanguage example_host (Some ''/ws/foo'') (example_world js_project)
      = (Inr (Some ''/javascript/''), example_world js_project)"
    by code_simp
  have meta: "(if ''/javascript/'' = ''/go/src/''
               then golangPackageAndVersion example_host (example_world js_project)
               else packageJsonNameAndVersion example_host (Some ''/ws/foo'')
                      (example_world js_project))
      = (Inr (Some \<lparr>workspacePackageName = Some ''foo'',
                     workspacePackageVersion = Some ''1.2.3''\<rparr>), example_world js_project)"
    by code_simp
  have run': "getFinalDirectory example_host ''/pkgs'' (Some ''/ws/foo'')
        (chosen_world other_js_project)
      = (Inr (Some ''/pkgs/javascript/foo@v1.2.3''), chosen_world other_js_project)"
    by code_simp
  have lang': "getLanguage example_host (Some ''/ws/foo'') (chosen_world other_js_project)
      = (Inr (Some ''/javascript/''), chosen_world other_js_project)"
    by code_simp
  have meta': "(if ''/javascript/'' = ''/go/src/''
               then golangPackageAndVersion example_host (chosen_world other_js_project)
               else packageJsonNameAndVersion example_host (Some ''/ws/foo'')
                      (chosen_world other_js_project))
      = (Inr (Some \<lparr>workspacePackageName = Some ''foo'',
                     workspacePackageVersion = Some ''1.2.3''\<rparr>), chosen_world other_js_project)"
    by code_simp
  from destination_path_where_computed [OF run lang meta run' lang' meta'] run run'
  show ?thesis by blast
qed

text \<open>
  For Go the metadata function returns nothing whenever a version is given, so the
  planner computes no path there.
\<close>

lemma go_with_version_no_path:
  assumes "getLanguage env wd w = (Inr (Some ''/go/src/''), w1)"
    and "truthy (showInputBox env ''Enter a name for your go package'')"
    and "truthy (showInputBox env ''Enter a version for your go package'')"
  shows "getFinalDirectory env pd wd w =
           (Inl (TypeError ''Cannot read property 'workspacePackageName' of undefined''), w1)"
  using assms by (simp add: getFinalDirectory_def golangPackageAndVersion_def Let_def)

text \<open>
  C2 fails on the code for Go. A Go project with the name \<^verbatim>\<open>goProject\<close> and the version
  \<^verbatim>\<open>0.0.1\<close> given at the prompts, and \<^verbatim>\<open>/pkgs\<close> as the package directory: the path of
  the claim is \<^verbatim>\<open>/pkgs/go/src/goProject@v0.0.1\<close>, but the check of the version is the
  wrong way round, the metadata function returns nothing, and the planner fails with a
  TypeError before it computes any path; the command shows the TypeError and leaves the
  file system as it was.
\<close>

theorem go_version_given_no_path:
  "getLanguage confirmed_version_host (Some ''/ws/foo'') (chosen_world go_project) =
     (Inr (Some ''/go/src/''), chosen_world go_project)
   \<and> showInputBox confirmed_version_host ''Enter a name for your go package'' = Some ''goProject''
   \<and> showInputBox confirmed_version_host ''Enter a version for your go package'' = Some ''0.0.1''
   \<and> path_join confirmed_version_host [''/pkgs'', ''/go/src/'', ''goProject'' @ ''@v'' @ ''0.0.1'']
       = ''/pkgs/go/src/goProject@v0.0.1''
   \<and> golangPackageAndVersion confirmed_version_host (chosen_world go_project) =
       (Inr None, chosen_world go_project)
   \<and> getFinalDirectory confirmed_version_host ''/pkgs'' (Some ''/ws/foo'')
       (chosen_world go_project) =
       (Inl (TypeError ''Cannot read property 'workspacePackageName' of undefined''),
        chosen_world go_project)
   \<and> fs (packageSmartContract confirmed_version_host (example_world go_project)) = go_project
   \<and> errorMessages (packageSmartContract confirmed_version_host (example_world go_project)) =
       [''TypeError: Cannot read property 'workspacePackageName' of undefined'']
   \<and> informationMessages (packageSmartContract confirmed_version_host
        (example_world go_project)) = []"
  by code_simp

text \<open>
  C6. For a JavaScript or TypeScript project whose manifest was read and parsed, a name
  or version that is absent or empty makes the pipeline fail with the message about
  \<^verbatim>\<open>package.json\<close>: \<open>createPackageDir\<close> returns that error, the file system is the one
  the command started with (no directory created, nothing copied), and no success
  message is shown.
\<close>

theorem manifest_field_missing:
  assumes ws: "chooseWorkspace env w0 = (Inr (Some wd), w1)"
    and lang: "getLanguage env (Some wd) w1 = (Inr (Some language), w2)"
    and family: "language = ''/javascript/'' \<or> language = ''/typescript/''"
    and rd: "readFile env (path_join env [wd, ''/package.json'']) (fs w2) = Inr contents"
    and parse: "JSON_parse env contents = Inr m"
    and missing: "manifest_name m = None \<or> manifest_name m = Some ''''
                  \<or> manifest_version m = None \<or> manifest_version m = Some ''''"
  shows "createPackageDir env pd w0 =
           (Inl (Error packageJsonMessage), showErrorMessage packageJsonMessage w2)
       \<and> packageSmartContract env w0 =
           showErrorMessage (''Error: '' @ packageJsonMessage)
             (showErrorMessage packageJsonMessage w2)
       \<and> fs (packageSmartContract env w0) = fs w0
       \<and> informationMessages (packageSmartContract env w0) = informationMessages w0"
proof -
  from family have nogo: "language \<noteq> ''/go/src/''"
    by auto
  from missing have falsy: "\<not> truthy (manifest_name m) \<or> \<not> truthy (manifest_version m)"
    by auto
  have resolve: "packageJsonNameAndVersion env (Some wd) w2 =
           (Inl (Error packageJsonMessage), showErrorMessage packageJsonMessage w2)"
    by (rule packageJson_missing [OF rd parse falsy])
  have plan: "getFinalDirectory env p (Some wd) w1 =
           (Inl (Error packageJsonMessage), showErrorMessage packageJsonMessage w2)" for p
    using lang nogo resolve by (simp add: getFinalDirectory_def)
  have whole: "createPackageDir env p w0 =
           (Inl (Error packageJsonMessage), showErrorMessage packageJsonMessage w2)" for p
    using ws plan by (simp add: createPackageDir_def)
  have f1: "fs w1 = fs w0"
    using chooseWorkspace_fs [of env w0] ws by simp
  have f2: "fs w2 = fs w1"
    using getLanguage_fs [of env "Some wd" w1] lang by simp
  have i1: "informationMessages w1 = informationMessages w0"
    using chooseWorkspace_messages [OF ws] by simp
  have i2: "informationMessages w2 = informationMessages w1"
    using getLanguage_messages [OF lang] by simp
  show ?thesis
    using whole f1 f2 i1 i2 by (simp add: packageSmartContract_def showErrorMessage_def)
qed

theorem manifest_field_missing_witness:
  "chooseWorkspace empty_name_manifest_host (example_world js_project) =
     (Inr (Some ''/ws/foo''), chosen_world js_project)
   \<and> getLanguage empty_name_manifest_host (Some ''/ws/foo'') (chosen_world js_project) =
     (Inr (Some ''/javascript/''), chosen_world js_project)
   \<and> JSON_parse empty_name_manifest_host ''/ws/foo/package.json'' =
     Inr \<lparr>manifest_name = Some '''', manifest_version = Some ''0.0.1''\<rparr>
   \<and> createPackageDir empty_name_manifest_host ''/pkgs'' (example_world js_project) =
     (Inl (Error packageJsonMessage),
      showErrorMessage packageJsonMessage (chosen_world js_project))
   \<and> fs (packageSmartContract empty_name_manifest_host (example_world js_project)) =
     fs (example_world js_project)
   \<and> informationMessages (packageSmartContract empty_name_manifest_host
        (example_world js_project)) = informationMessages (example_world js_project)"
proof -
  have ws: "chooseWorkspace empty_name_manifest_host (example_world js_project) =
     (Inr (Some ''/ws/foo''), chosen_world js_project)"
    by code_simp
  have lang: "getLanguage empty_name_manifest_host (Some ''/ws/foo'') (chosen_world js_project) =
     (Inr (Some ''/javascript/''), chosen_world js_project)"
    by code_simp
  have family: "''/javascript/'' = ''/javascript/'' \<or> ''/javascript/'' = ''/typescript/''"
    by simp
  have rd: "readFile empty_name_manifest_host
      (path_join empty_name_manifest_host [''/ws/foo'', ''/package.json''])
      (fs (chosen_world js_project)) = Inr ''/ws/foo/package.json''"
    by code_simp
  have parse: "JSON_parse empty_name_manifest_host ''/ws/foo/package.json'' =
     Inr \<lparr>manifest_name = Some '''', manifest_version = Some ''0.0.1''\<rparr>"
    by code_simp
  have missing:
    "manifest_name \<lparr>manifest_name = Some '''', manifest_version = Some ''0.0.1''\<rparr> = None
     \<or> manifest_name \<lparr>manifest_name = Some '''', manifest_version = Some ''0.0.1''\<rparr> = Some ''''
     \<or> manifest_version \<lparr>manifest_name = Some '''', manifest_version = Some ''0.0.1''\<rparr> = None
     \<or> manifest_version \<lparr>manifest_name = Some '''', manifest_version = Some ''0.0.1''\<rparr> = Some ''''"
    by simp
  from manifest_field_missing [OF ws lang family rd parse missing, of "''/pkgs''"] ws lang parse
  show ?thesis by blast
qed

text \<open>
  C7. With the language detected, the metadata resolved and the destination computed,
  the probe decides. A directory at the destination: the planner shows the message of
  the language family (the Go message for Go, the \<^verbatim>\<open>package.json\<close> message otherwise)
  and fails with an error that carries it, \<open>createPackageDir\<close> fails with the same error,
  and the file system is the one the command started with. No entry there (ENOENT): the
  planner returns the destination. Any other failure of the probe: the planner shows it
  and fails with an error that carries it.
\<close>

theorem probe_outcomes:
  assumes ws: "chooseWorkspace env w0 = (Inr wd, w)"
    and lang: "getLanguage env wd w = (Inr (Some language), w1)"
    and meta: "(if language = ''/go/src/'' then golangPackageAndVersion env w1
                else packageJsonNameAndVersion env wd w1) = (Inr (Some props), w2)"
    and dir: "dir = path_join env [pd, language,
                js_string (workspacePackageName props) @ ''@v'' @
                js_string (workspacePackageVersion props)]"
    and msg: "message = (if language = ''/go/src/'' then goExistsMessage
                         else packageJsonExistsMessage)"
  shows "(stat env dir (fs w2) = Inr True \<longrightarrow>
            getFinalDirectory env pd wd w =
              (Inl (Error (''Error: '' @ message)),
               showErrorMessage (''Error: '' @ message) (showErrorMessage message w2))
          \<and> createPackageDir env pd w0 =
              (Inl (Error (''Error: '' @ message)),
               showErrorMessage (''Error: '' @ message) (showErrorMessage message w2))
          \<and> fs (snd (createPackageDir env pd w0)) = fs w0)
       \<and> (\<forall>m. stat env dir (fs w2) = Inl (SystemError ''ENOENT'' m) \<longrightarrow>
            getFinalDirectory env pd wd w = (Inr (Some dir), w2))
       \<and> (\<forall>err. stat env dir (fs w2) = Inl err \<and> error_code err \<noteq> Some ''ENOENT'' \<longrightarrow>
            getFinalDirectory env pd wd w =
              (Inl (Error (toString err)), showErrorMessage (toString err) w2)
          \<and> createPackageDir env pd w0 =
              (Inl (Error (toString err)), showErrorMessage (toString err) w2))"
proof -
  note eq = getFinalDirectory_resolved [OF lang meta, of pd, folded dir]
  have f: "fs w2 = fs w0"
    using resolved_fs [OF lang meta] chooseWorkspace_fs [of env w0] ws by simp
  have exists: "getFinalDirectory env pd wd w =
              (Inl (Error (''Error: '' @ message)),
               showErrorMessage (''Error: '' @ message) (showErrorMessage message w2))"
    if "stat env dir (fs w2) = Inr True"
    using eq msg that by (simp add: Let_def probeCatch_def)
  have exists_whole: "createPackageDir env pd w0 =
              (Inl (Error (''Error: '' @ message)),
               showErrorMessage (''Error: '' @ message) (showErrorMessage message w2))
          \<and> fs (snd (createPackageDir env pd w0)) = fs w0"
    if "stat env dir (fs w2) = Inr True"
    using exists [OF that] ws f by (simp add: createPackageDir_def showErrorMessage_def)
  have absent: "getFinalDirectory env pd wd w = (Inr (Some dir), w2)"
    if "stat env dir (fs w2) = Inl (SystemError ''ENOENT'' m)" for m
    using eq that by (simp add: Let_def probeCatch_def)
  have other: "getFinalDirectory env pd wd w =
              (Inl (Error (toString err)), showErrorMessage (toString err) w2)"
    if "stat env dir (fs w2) = Inl err \<and> error_code err \<noteq> Some ''ENOENT''" for err
    using eq that by (simp add: Let_def probeCatch_def)
  have other_whole: "createPackageDir env pd w0 =
              (Inl (Error (toString err)), showErrorMessage (toString err) w2)"
    if "stat env dir (fs w2) = Inl err \<and> error_code err \<noteq> Some ''ENOENT''" for err
    using other [OF that] ws by (simp add: createPackageDir_def)
  from exists exists_whole absent other other_whole show ?thesis
    by blast
qed

theorem probe_outcomes_witness:
  "stat example_host ''/pkgs/javascript/foo@v1.2.3'' (fs (chosen_world packaged_js_project))
     = Inr True
   \<and> createPackageDir example_host ''/pkgs'' (example_world packaged_js_project) =
       (Inl (Error (''Error: '' @ packageJsonExistsMessage)),
        showErrorMessage (''Error: '' @ packageJsonExistsMessage)
          (showErrorMessage packageJsonExistsMessage (chosen_world packaged_js_project)))
   \<and> fs (snd (createPackageDir example_host ''/pkgs'' (example_world packaged_js_project)))
       = fs (example_world packaged_js_project)
   \<and> stat cancelled_version_host ''/pkgs/go/src/mycc@vundefined''
       (fs (chosen_world packaged_go_project)) = Inr True
   \<and> getFinalDirectory cancelled_version_host ''/pkgs'' (Some ''/ws/foo'')
       (chosen_world packaged_go_project) =
       (Inl (Error (''Error: '' @ goExistsMessage)),
        showErrorMessage (''Error: '' @ goExistsMessage)
          (showErrorMessage goExistsMessage (chosen_world packaged_go_project)))
   \<and> stat example_host ''/pkgs/javascript/foo@v1.2.3'' (fs (chosen_world js_project))
       = Inl (SystemError ''ENOENT''
           ''ENOENT: no such file or directory, stat /pkgs/javascript/foo@v1.2.3'')
   \<and> getFinalDirectory example_host ''/pkgs'' (Some ''/ws/foo'') (chosen_world js_project) =
       (Inr (Some ''/pkgs/javascript/foo@v1.2.3''), chosen_world js_project)
   \<and> stat denied_host ''/pkgs/javascript/foo@v1.2.3'' (fs (chosen_world js_project))
       = Inl (SystemError ''EACCES'' ''EACCES: permission denied, stat'')
   \<and> getFinalDirectory denied_host ''/pkgs'' (Some ''/ws/foo'') (chosen_world js_project) =
       (Inl (Error (toString (SystemError ''EACCES'' ''EACCES: permission denied, stat''))),
        showErrorMessage (toString (SystemError ''EACCES'' ''EACCES: permission denied, stat''))
          (chosen_world js_project))"
proof -
  let ?js = "\<lparr>workspacePackageName = Some ''foo'', workspacePackageVersion = Some ''1.2.3''\<rparr>"
  let ?go = "\<lparr>workspacePackageName = Some ''mycc'', workspacePackageVersion = None\<rparr>"
  have js_msg: "packageJsonExistsMessage =
      (if ''/javascript/'' = ''/go/src/'' then goExistsMessage else packageJsonExistsMessage)"
    by simp
  have go_msg: "goExistsMessage =
      (if ''/go/src/'' = ''/go/src/'' then goExistsMessage else packageJsonExistsMessage)"
    by simp
  \<comment> \<open>a directory at the destination, JavaScript\<close>
  have ws1: "chooseWorkspace example_host (example_world packaged_js_project) =
      (Inr (Some ''/ws/foo''), chosen_world packaged_js_project)"
    by code_simp
  have lang1: "getLanguage example_host (Some ''/ws/foo'') (chosen_world packaged_js_project) =
      (Inr (Some ''/javascript/''), chosen_world packaged_js_project)"
    by code_simp
  have meta1: "(if ''/javascript/'' = ''/go/src/''
        then golangPackageAndVersion example_host (chosen_world packaged_js_project)
        else packageJsonNameAndVersion example_host (Some ''/ws/foo'')
               (chosen_world packaged_js_project)) =
      (Inr (Some ?js), chosen_world packaged_js_project)"
    by code_simp
  have dir1: "''/pkgs/javascript/foo@v1.2.3'' = path_join example_host [''/pkgs'', ''/javascript/'',
        js_string (workspacePackageName ?js) @ ''@v'' @ js_string (workspacePackageVersion ?js)]"
    by code_simp
  have stat1: "stat example_host ''/pkgs/javascript/foo@v1.2.3''
      (fs (chosen_world packaged_js_project)) = Inr True"
    by code_simp
  note r1 = probe_outcomes [OF ws1 lang1 meta1 dir1 js_msg]
  \<comment> \<open>a directory at the destination, Go\<close>
  have ws2: "chooseWorkspace cancelled_version_host (example_world packaged_go_project) =
      (Inr (Some ''/ws/foo''), chosen_world packaged_go_project)"
    by code_simp
  have lang2: "getLanguage cancelled_version_host (Some ''/ws/foo'')
      (chosen_world packaged_go_project) =
      (Inr (Some ''/go/src/''), chosen_world packaged_go_project)"
    by code_simp
  have meta2: "(if ''/go/src/'' = ''/go/src/''
        then golangPackageAndVersion cancelled_version_host (chosen_world packaged_go_project)
        else packageJsonNameAndVersion cancelled_version_host (Some ''/ws/foo'')
               (chosen_world packaged_go_project)) =
      (Inr (Some ?go), chosen_world packaged_go_project)"
    by code_simp
  have dir2: "''/pkgs/go/src/mycc@vundefined'' = path_join cancelled_version_host
       [''/pkgs'', ''/go/src/'',
        js_string (workspacePackageName ?go) @ ''@v'' @ js_string (workspacePackageVersion ?go)]"
    by code_simp
  have stat2: "stat cancelled_version_host ''/pkgs/go/src/mycc@vundefined''
      (fs (chosen_world packaged_go_project)) = Inr True"
    by code_simp
  note r2 = probe_outcomes [OF ws2 lang2 meta2 dir2 go_msg]
  \<comment> \<open>nothing at the destination\<close>
  have ws3: "chooseWorkspace example_host (example_world js_project) =
      (Inr (Some ''/ws/foo''), chosen_world js_project)"
    by code_simp
  have lang3: "getLanguage example_host (Some ''/ws/foo'') (chosen_world js_project) =
      (Inr (Some ''/javascript/''), chosen_world js_project)"
    by code_simp
  have meta3: "(if ''/javascript/'' = ''/go/src/''
        then golangPackageAndVersion example_host (chosen_world js_project)
        else packageJsonNameAndVersion example_host (Some ''/ws/foo'') (chosen_world js_project)) =
      (Inr (Some ?js), chosen_world js_project)"
    by code_simp
  have stat3: "stat example_host ''/pkgs/javascript/foo@v1.2.3'' (fs (chosen_world js_project))
       = Inl (SystemError ''ENOENT''
           ''ENOENT: no such file or directory, stat /pkgs/javascript/foo@v1.2.3'')"
    by code_simp
  note r3 = probe_outcomes [OF ws3 lang3 meta3 dir1 js_msg]
  \<comment> \<open>the probe is refused\<close>
  have ws4: "chooseWorkspace denied_host (example_world js_project) =
      (Inr (Some ''/ws/foo''), chosen_world js_project)"
    by code_simp
  have lang4: "getLanguage denied_host (Some ''/ws/foo'') (chosen_world js_project) =
      (Inr (Some ''/javascript/''), chosen_world js_project)"
    by code_simp
  have meta4: "(if ''/javascript/'' = ''/go/src/''
        then golangPackageAndVersion denied_host (chosen_world js_project)
        else packageJsonNameAndVersion denied_host (Some ''/ws/foo'') (chosen_world js_project)) =
      (Inr (Some ?js), chosen_world js_project)"
    by code_simp
  have dir4: "''/pkgs/javascript/foo@v1.2.3'' = path_join denied_host [''/pkgs'', ''/javascript/'',
        js_string (workspacePackageName ?js) @ ''@v'' @ js_string (workspacePackageVersion ?js)]"
    by code_simp
  have stat4: "stat denied_host ''/pkgs/javascript/foo@v1.2.3'' (fs (chosen_world js_project))
       = Inl (SystemError ''EACCES'' ''EACCES: permission denied, stat'')"
    by code_simp
  have code4: "error_code (SystemError ''EACCES'' ''EACCES: permission denied, stat'')
       \<noteq> Some ''ENOENT''"
    by simp
  note r4 = probe_outcomes [OF ws4 lang4 meta4 dir4 js_msg]
  from r1 stat1 r2 stat2 r3 stat3 r4 stat4 code4 show ?thesis
    by blast
qed

text \<open>
  C8. With \<^verbatim>\<open>mkdirp\<close> and \<^verbatim>\<open>copy\<close> as modelled, on a disk where the workspace root is a
  directory, nothing is at or below the destination, no file is in its chain and it is
  not inside the workspace, the materializer succeeds: \<^verbatim>\<open>mkdirp\<close> on the destination
  and then \<^verbatim>\<open>copy\<close> from the workspace root to the destination both succeed. They
  leave a disk on which every directory of the chain of the destination exists, the
  intermediate ones included; every path below the destination holds exactly what the
  same relative path below the workspace root held, file or subdirectory, with nothing
  filtered; and every path outside the destination and its chain is as it was. The information message is
  \<^verbatim>\<open>Smart Contract packaged: \<close> followed by the destination, and the command then
  executes the refresh command of the package explorer.
\<close>

theorem materializer_packages:
  assumes mk: "mkdirp env = fs_mkdirp"
    and cp: "copy env = fs_copy"
    and root: "entry (fs w) (segments wd) = Some Directory"
    and free: "\<forall>q. prefix (segments dir) q \<longrightarrow> entry (fs w) q = None"
    and above: "\<forall>q. prefix q (segments dir) \<longrightarrow> \<not> is_file (entry (fs w) q)"
    and outside: "\<not> prefix (segments wd) (segments dir)"
  shows "\<exists>d1 d. fs_mkdirp (Some dir) (fs w) = (None, d1)
           \<and> fs_copy (Some wd) (Some dir) d1 = (None, d)
           \<and> createAndPackage env (Some dir) (Some wd) w =
               (Inr (), w\<lparr>fs := d,
                          informationMessages :=
                            informationMessages w @ [''Smart Contract packaged: '' @ dir]\<rparr>)
           \<and> (\<forall>q. prefix q (segments dir) \<longrightarrow> entry d q = Some Directory)
           \<and> (\<forall>rel. entry d (segments dir @ rel) = entry (fs w) (segments wd @ rel))
           \<and> (\<forall>q. \<not> prefix (segments dir) q \<and> \<not> prefix q (segments dir) \<longrightarrow>
                  entry d q = entry (fs w) q)
           \<and> (chooseWorkspace env w0 = (Inr (Some wd), w1)
              \<and> getFinalDirectory env (getBasePackageDir env (packageDirectory env)) (Some wd) w1
                  = (Inr (Some dir), w) \<longrightarrow>
              packageSmartContract env w0 =
                w\<lparr>fs := d,
                  informationMessages :=
                    informationMessages w @ [''Smart Contract packaged: '' @ dir],
                  executedCommands :=
                    executedCommands w @ [''blockchainAPackageExplorer.refreshEntry'']\<rparr>)"
proof -
  from mkdirp_then_copy [OF root free above outside]
  obtain d1 d2 where made: "fs_mkdirp (Some dir) (fs w) = (None, d1)"
    and copied: "fs_copy (Some wd) (Some dir) d1 = (None, d2)"
    and chain: "\<forall>q. prefix q (segments dir) \<longrightarrow> entry d2 q = Some Directory"
    and tree: "\<forall>rel. entry d2 (segments dir @ rel) = entry (fs w) (segments wd @ rel)"
    and frame: "\<forall>q. \<not> prefix (segments dir) q \<and> \<not> prefix q (segments dir) \<longrightarrow>
                  entry d2 q = entry (fs w) q"
    by blast
  have result: "createAndPackage env (Some dir) (Some wd) w =
               (Inr (), w\<lparr>fs := d2,
                          informationMessages :=
                            informationMessages w @ [''Smart Contract packaged: '' @ dir]\<rparr>)"
    using made copied by (simp add: createAndPackage_succeeds mk cp)
  have "packageSmartContract env w0 =
                w\<lparr>fs := d2,
                  informationMessages :=
                    informationMessages w @ [''Smart Contract packaged: '' @ dir],
                  executedCommands :=
                    executedCommands w @ [''blockchainAPackageExplorer.refreshEntry'']\<rparr>"
    if "chooseWorkspace env w0 = (Inr (Some wd), w1)"
      and "getFinalDirectory env (getBasePackageDir env (packageDirectory env)) (Some wd) w1
              = (Inr (Some dir), w)"
    using that result
    by (simp add: packageSmartContract_def createPackageDir_def executeCommand_def)
  with made copied result chain tree frame show ?thesis
    by blast
qed

theorem materializer_packages_witness:
  "mkdirp disk_host = fs_mkdirp \<and> copy disk_host = fs_copy
   \<and> segments ''/ws/foo'' = [''ws'', ''foo'']
   \<and> segments ''/pkgs/javascript/foo@v1.2.3'' = [''pkgs'', ''javascript'', ''foo@v1.2.3'']
   \<and> entry js_disk [''ws'', ''foo''] = Some Directory
   \<and> list_all (\<lambda>(p, n). \<not> prefix [''pkgs'', ''javascript'', ''foo@v1.2.3''] p) js_disk
   \<and> list_all (\<lambda>q. \<not> is_file (entry js_disk q))
        (prefixes [''pkgs'', ''javascript'', ''foo@v1.2.3''])
   \<and> \<not> prefix [''ws'', ''foo''] [''pkgs'', ''javascript'', ''foo@v1.2.3'']
   \<and> fst (createAndPackage disk_host (Some ''/pkgs/javascript/foo@v1.2.3'') (Some ''/ws/foo'')
        (disk_world js_disk [''Getting workspace folders...''])) = Inr ()
   \<and> entry (fs (packageSmartContract disk_host (disk_world js_disk []))) [''pkgs'']
       = Some Directory
   \<and> entry (fs (packageSmartContract disk_host (disk_world js_disk [])))
       [''pkgs'', ''javascript''] = Some Directory
   \<and> entry (fs (packageSmartContract disk_host (disk_world js_disk [])))
       [''pkgs'', ''javascript'', ''foo@v1.2.3''] = Some Directory
   \<and> entry (fs (packageSmartContract disk_host (disk_world js_disk [])))
       [''pkgs'', ''javascript'', ''foo@v1.2.3'', ''package.json'']
       = Some (File ''name foo, version 1.2.3'')
   \<and> entry (fs (packageSmartContract disk_host (disk_world js_disk [])))
       [''pkgs'', ''javascript'', ''foo@v1.2.3'', ''index.js'']
       = Some (File ''module.exports = {}'')
   \<and> entry (fs (packageSmartContract disk_host (disk_world js_disk [])))
       [''pkgs'', ''javascript'', ''foo@v1.2.3'', ''test''] = Some Directory
   \<and> entry (fs (packageSmartContract disk_host (disk_world js_disk [])))
       [''pkgs'', ''javascript'', ''foo@v1.2.3'', ''test'', ''notes.txt'']
       = Some (File ''not a source file'')
   \<and> entry (fs (packageSmartContract disk_host (disk_world js_disk [])))
       [''pkgs'', ''javascript'', ''foo@v1.2.3'', ''absent''] = None
   \<and> entry (fs (packageSmartContract disk_host (disk_world js_disk [])))
       [''ws'', ''foo'', ''index.js''] = Some (File ''module.exports = {}'')
   \<and> informationMessages (packageSmartContract disk_host (disk_world js_disk []))
       = [''Smart Contract packaged: /pkgs/javascript/foo@v1.2.3'']
   \<and> executedCommands (packageSmartContract disk_host (disk_world js_disk []))
       = [''blockchainAPackageExplorer.refreshEntry'']"
proof -
  let ?w = "disk_world js_disk [''Getting workspace folders...'']"
  let ?dir = "''/pkgs/javascript/foo@v1.2.3''"
  have mk: "mkdirp disk_host = fs_mkdirp" and cp: "copy disk_host = fs_copy"
    by (simp_all add: disk_host_def)
  have seg_wd: "segments ''/ws/foo'' = [''ws'', ''foo'']"
    by code_simp
  have seg_dir: "segments ?dir = [''pkgs'', ''javascript'', ''foo@v1.2.3'']"
    by code_simp
  have disk: "fs ?w = js_disk"
    by (simp add: disk_world_def)
  have there: "entry js_disk [''ws'', ''foo''] = Some Directory"
    by code_simp
  have vacant: "list_all (\<lambda>(p, n). \<not> prefix [''pkgs'', ''javascript'', ''foo@v1.2.3''] p) js_disk"
    by code_simp
  have no_file: "list_all (\<lambda>q. \<not> is_file (entry js_disk q))
        (prefixes [''pkgs'', ''javascript'', ''foo@v1.2.3''])"
    by code_simp
  have apart: "\<not> prefix [''ws'', ''foo''] [''pkgs'', ''javascript'', ''foo@v1.2.3'']"
    by simp
  have root: "entry (fs ?w) (segments ''/ws/foo'') = Some Directory"
    using there by (simp add: disk seg_wd)
  have free: "\<forall>q. prefix (segments ?dir) q \<longrightarrow> entry (fs ?w) q = None"
    using free_below [OF vacant] by (simp add: disk seg_dir)
  have above: "\<forall>q. prefix q (segments ?dir) \<longrightarrow> \<not> is_file (entry (fs ?w) q)"
    using no_file_above [OF no_file] by (simp add: disk seg_dir)
  have outside: "\<not> prefix (segments ''/ws/foo'') (segments ?dir)"
    using apart by (simp add: seg_wd seg_dir)
  have ws: "chooseWorkspace disk_host (disk_world js_disk []) = (Inr (Some ''/ws/foo''), ?w)"
    by code_simp
  have plan: "getFinalDirectory disk_host
      (getBasePackageDir disk_host (packageDirectory disk_host)) (Some ''/ws/foo'') ?w =
      (Inr (Some ?dir), ?w)"
    by code_simp
  from materializer_packages [OF mk cp root free above outside,
      of "disk_world js_disk []" ?w]
  obtain d1 d where made: "createAndPackage disk_host (Some ?dir) (Some ''/ws/foo'') ?w =
               (Inr (), ?w\<lparr>fs := d,
                          informationMessages :=
                            informationMessages ?w @ [''Smart Contract packaged: '' @ ?dir]\<rparr>)"
    and chain: "\<forall>q. prefix q (segments ?dir) \<longrightarrow> entry d q = Some Directory"
    and tree: "\<forall>rel. entry d (segments ?dir @ rel) = entry (fs ?w) (segments ''/ws/foo'' @ rel)"
    and frame: "\<forall>q. \<not> prefix (segments ?dir) q \<and> \<not> prefix q (segments ?dir) \<longrightarrow>
                  entry d q = entry (fs ?w) q"
    and whole: "chooseWorkspace disk_host (disk_world js_disk []) = (Inr (Some ''/ws/foo''), ?w)
              \<and> getFinalDirectory disk_host
                  (getBasePackageDir disk_host (packageDirectory disk_host)) (Some ''/ws/foo'') ?w
                  = (Inr (Some ?dir), ?w) \<longrightarrow>
              packageSmartContract disk_host (disk_world js_disk []) =
                ?w\<lparr>fs := d,
                  informationMessages :=
                    informationMessages ?w @ [''Smart Contract packaged: '' @ ?dir],
                  executedCommands :=
                    executedCommands ?w @ [''blockchainAPackageExplorer.refreshEntry'']\<rparr>"
    by blast
  from whole ws plan have run: "packageSmartContract disk_host (disk_world js_disk []) =
                ?w\<lparr>fs := d,
                  informationMessages :=
                    informationMessages ?w @ [''Smart Contract packaged: '' @ ?dir],
                  executedCommands :=
                    executedCommands ?w @ [''blockchainAPackageExplorer.refreshEntry'']\<rparr>"
    by blast
  have final: "fs (packageSmartContract disk_host (disk_world js_disk [])) = d"
    by (simp add: run)
  have c1: "entry d [''pkgs''] = Some Directory"
    and c2: "entry d [''pkgs'', ''javascript''] = Some Directory"
    and c3: "entry d [''pkgs'', ''javascript'', ''foo@v1.2.3''] = Some Directory"
    using chain by (simp_all add: seg_dir)
  have src: "entry js_disk [''ws'', ''foo'', ''package.json''] = Some (File ''name foo, version 1.2.3'')"
      "entry js_disk [''ws'', ''foo'', ''index.js''] = Some (File ''module.exports = {}'')"
      "entry js_disk [''ws'', ''foo'', ''test''] = Some Directory"
      "entry js_disk [''ws'', ''foo'', ''test'', ''notes.txt''] = Some (File ''not a source file'')"
      "entry js_disk [''ws'', ''foo'', ''absent''] = None"
    by code_simp+
  have t1: "entry d [''pkgs'', ''javascript'', ''foo@v1.2.3'', ''package.json'']
       = Some (File ''name foo, version 1.2.3'')"
    using tree [rule_format, of "[''package.json'']"] src by (simp add: seg_dir seg_wd disk)
  have t2: "entry d [''pkgs'', ''javascript'', ''foo@v1.2.3'', ''index.js'']
       = Some (File ''module.exports = {}'')"
    using tree [rule_format, of "[''index.js'']"] src by (simp add: seg_dir seg_wd disk)
  have t3: "entry d [''pkgs'', ''javascript'', ''foo@v1.2.3'', ''test''] = Some Directory"
    using tree [rule_format, of "[''test'']"] src by (simp add: seg_dir seg_wd disk)
  have t4: "entry d [''pkgs'', ''javascript'', ''foo@v1.2.3'', ''test'', ''notes.txt'']
       = Some (File ''not a source file'')"
    using tree [rule_format, of "[''test'', ''notes.txt'']"] src by (simp add: seg_dir seg_wd disk)
  have t5: "entry d [''pkgs'', ''javascript'', ''foo@v1.2.3'', ''absent''] = None"
    using tree [rule_format, of "[''absent'']"] src by (simp add: seg_dir seg_wd disk)
  have f1: "entry d [''ws'', ''foo'', ''index.js''] = Some (File ''module.exports = {}'')"
    using frame [rule_format, of "[''ws'', ''foo'', ''index.js'']"] src
    by (simp add: seg_dir disk)
  have ok: "fst (createAndPackage disk_host (Some ?dir) (Some ''/ws/foo'') ?w) = Inr ()"
    by (simp add: made)
  have msg: "informationMessages (packageSmartContract disk_host (disk_world js_disk []))
       = [''Smart Contract packaged: /pkgs/javascript/foo@v1.2.3'']"
    unfolding run by (simp add: disk_world_def)
  have cmd: "executedCommands (packageSmartContract disk_host (disk_world js_disk []))
       = [''blockchainAPackageExplorer.refreshEntry'']"
    unfolding run by (simp add: disk_world_def)
  from mk cp seg_wd seg_dir there vacant no_file apart ok c1 c2 c3 t1 t2 t3 t4 t5 f1 msg cmd
  show ?thesis
    by (simp only: final simp_thms)
qed

text \<open>
  C9. The collision check fires only for a directory. When the probe succeeds and the
  entry at the destination is not a directory, the planner shows no message, raises no
  error and returns no path, and \<open>createPackageDir\<close> goes on to call \<open>createAndPackage\<close>
  with the undefined destination.
\<close>

theorem file_at_destination:
  assumes ws: "chooseWorkspace env w0 = (Inr wd, w)"
    and lang: "getLanguage env wd w = (Inr (Some language), w1)"
    and meta: "(if language = ''/go/src/'' then golangPackageAndVersion env w1
                else packageJsonNameAndVersion env wd w1) = (Inr (Some props), w2)"
    and probe: "stat env (path_join env [pd, language,
                  js_string (workspacePackageName props) @ ''@v'' @
                  js_string (workspacePackageVersion props)]) (fs w2) = Inr False"
  shows "getFinalDirectory env pd wd w = (Inr None, w2)
       \<and> errorMessages w2 = errorMessages w0
       \<and> createPackageDir env pd w0 = createAndPackage env None wd w2"
proof -
  have plan: "getFinalDirectory env pd wd w = (Inr None, w2)"
    using getFinalDirectory_resolved [OF lang meta, of pd] probe by (simp add: Let_def)
  have "errorMessages w = errorMessages w0"
    using chooseWorkspace_messages [OF ws] by simp
  moreover have "errorMessages w1 = errorMessages w"
    using getLanguage_messages [OF lang] by simp
  moreover have "errorMessages w2 = errorMessages w1"
    by (rule resolved_messages [OF meta])
  ultimately show ?thesis
    using plan ws by (simp add: createPackageDir_def)
qed

theorem file_at_destination_witness:
  "stat example_host ''/pkgs/javascript/foo@v1.2.3'' (fs (chosen_world blocked_js_project))
     = Inr False
   \<and> getFinalDirectory example_host ''/pkgs'' (Some ''/ws/foo'') (chosen_world blocked_js_project)
     = (Inr None, chosen_world blocked_js_project)
   \<and> errorMessages (chosen_world blocked_js_project)
     = errorMessages (example_world blocked_js_project)
   \<and> createPackageDir example_host ''/pkgs'' (example_world blocked_js_project)
     = createAndPackage example_host None (Some ''/ws/foo'') (chosen_world blocked_js_project)"
proof -
  let ?js = "\<lparr>workspacePackageName = Some ''foo'', workspacePackageVersion = Some ''1.2.3''\<rparr>"
  have ws: "chooseWorkspace example_host (example_world blocked_js_project) =
      (Inr (Some ''/ws/foo''), chosen_world blocked_js_project)"
    by code_simp
  have lang: "getLanguage example_host (Some ''/ws/foo'') (chosen_world blocked_js_project) =
      (Inr (Some ''/javascript/''), chosen_world blocked_js_project)"
    by code_simp
  have meta: "(if ''/javascript/'' = ''/go/src/''
        then golangPackageAndVersion example_host (chosen_world blocked_js_project)
        else packageJsonNameAndVersion example_host (Some ''/ws/foo'')
               (chosen_world blocked_js_project)) =
      (Inr (Some ?js), chosen_world blocked_js_project)"
    by code_simp
  have probe: "stat example_host (path_join example_host [''/pkgs'', ''/javascript/'',
        js_string (workspacePackageName ?js) @ ''@v'' @ js_string (workspacePackageVersion ?js)])
        (fs (chosen_world blocked_js_project)) = Inr False"
    by code_simp
  have there: "stat example_host ''/pkgs/javascript/foo@v1.2.3''
      (fs (chosen_world blocked_js_project)) = Inr False"
    by code_simp
  from file_at_destination [OF ws lang meta probe] there show ?thesis
    by blast
qed

text \<open>
  C5, as amended. When the retrieval of the folder list fails, the workspace selector
  logs its line, shows the message about the workspace folder options and fails with an
  error of that message; the command shows that error, leaves the file system as it was,
  shows no success message and executes no refresh.
\<close>

theorem retrieval_failure_aborts:
  assumes "getWorkspaceFolders env = Inl err"
  shows "chooseWorkspace env w =
           (Inl (Error workspaceFoldersMessage),
            showErrorMessage workspaceFoldersMessage
              (outputAdapter_log ''Getting workspace folders...'' w))
       \<and> packageSmartContract env w =
           showErrorMessage (''Error: '' @ workspaceFoldersMessage)
             (showErrorMessage workspaceFoldersMessage
               (outputAdapter_log ''Getting workspace folders...'' w))
       \<and> fs (packageSmartContract env w) = fs w
       \<and> informationMessages (packageSmartContract env w) = informationMessages w
       \<and> executedCommands (packageSmartContract env w) = executedCommands w"
proof -
  have selector: "chooseWorkspace env w =
           (Inl (Error workspaceFoldersMessage),
            showErrorMessage workspaceFoldersMessage
              (outputAdapter_log ''Getting workspace folders...'' w))"
    using assms by (simp add: chooseWorkspace_def)
  then have "packageSmartContract env w =
           showErrorMessage (''Error: '' @ workspaceFoldersMessage)
             (showErrorMessage workspaceFoldersMessage
               (outputAdapter_log ''Getting workspace folders...'' w))"
    by (simp add: packageSmartContract_def createPackageDir_def)
  with selector show ?thesis
    by (simp add: showErrorMessage_def outputAdapter_log_def)
qed

theorem retrieval_failure_aborts_witness:
  "getWorkspaceFolders no_retrieval_host = Inl (Error ''workspace folders unavailable'')
   \<and> chooseWorkspace no_retrieval_host (example_world js_project) =
       (Inl (Error workspaceFoldersMessage),
        showErrorMessage workspaceFoldersMessage
          (outputAdapter_log ''Getting workspace folders...'' (example_world js_project)))
   \<and> fs (packageSmartContract no_retrieval_host (example_world js_project)) =
       fs (example_world js_project)
   \<and> executedCommands (packageSmartContract no_retrieval_host (example_world js_project)) =
       executedCommands (example_world js_project)"
proof -
  have fails: "getWorkspaceFolders no_retrieval_host = Inl (Error ''workspace folders unavailable'')"
    by code_simp
  from retrieval_failure_aborts [OF fails, of "example_world js_project"] fails
  show ?thesis by blast
qed

text \<open>
  C5 as stated fails on an empty folder list: the retrieval succeeds with no folder, and
  the workspace selector returns no path without raising an error or showing a message.
\<close>

theorem empty_folder_list_counterexample:
  "getWorkspaceFolders no_folders_host = Inr []
   \<and> fst (chooseWorkspace no_folders_host (example_world js_project)) = Inr None
   \<and> errorMessages (snd (chooseWorkspace no_folders_host (example_world js_project))) = []"
  by code_simp

text \<open>
  C10. With the runtime resolved (its name given by the tree item or picked, and known
  to the manager), the command succeeds; the runtime's development mode is the negation
  of what it was; the calls made on the runtime are, in this order, the setting of the
  negated mode, the running check and, exactly when the runtime is running, the restart,
  which is announced by a progress report.
\<close>

theorem toggle_dev_mode:
  assumes named: "(case item of
                     None \<Rightarrow> pick ''Select the Fabric runtime to toggle development mode''
                   | Some i \<Rightarrow> Some (getName i)) = Some n"
    and resolved: "runtimes w n = Some r"
  shows "\<exists>w' r'. toggleFabricRuntimeDevMode pick item w = Inr w'
        \<and> runtimes w' = (runtimes w)(n \<mapsto> r')
        \<and> developmentMode r' = (\<not> developmentMode r)
        \<and> running r' = running r
        \<and> calls r' = calls r @ [SetDevelopmentMode (\<not> developmentMode r), IsRunning]
                        @ (if running r then [Restart] else [])
        \<and> progressReports w' = progressReports w
                        @ (if running r then [''Restarting Fabric runtime '' @ n] else [])"
proof (cases "running r")
  case True
  with named resolved show ?thesis
    by (auto simp: toggleFabricRuntimeDevMode_def runtimeManager_get_def Let_def isRunning_def
        runtimeManager_store_def progress_report_def setDevelopmentMode_def
        isDevelopmentMode_def restart_def)
next
  case False
  with named resolved show ?thesis
    by (auto simp: toggleFabricRuntimeDevMode_def runtimeManager_get_def Let_def isRunning_def
        runtimeManager_store_def progress_report_def setDevelopmentMode_def
        isDevelopmentMode_def restart_def)
qed

theorem toggle_dev_mode_witness:
  "runtimes example_runtimes ''local_fabric'' =
     Some \<lparr>developmentMode = False, running = True, calls = []\<rparr>
   \<and> (\<exists>w' r'. toggleFabricRuntimeDevMode (\<lambda>prompt. None)
                 (Some \<lparr>getName = ''local_fabric''\<rparr>) example_runtimes = Inr w'
        \<and> runtimes w' ''local_fabric'' = Some r'
        \<and> developmentMode r' = True
        \<and> running r' = True
        \<and> calls r' = [SetDevelopmentMode True, IsRunning, Restart]
        \<and> progressReports w' = [''Restarting Fabric runtime local_fabric''])
   \<and> runtimes stopped_runtimes ''stopped'' =
     Some \<lparr>developmentMode = True, running = False, calls = []\<rparr>
   \<and> (\<exists>w' r'. toggleFabricRuntimeDevMode (\<lambda>prompt. Some ''stopped'') None
                 stopped_runtimes = Inr w'
        \<and> runtimes w' ''stopped'' = Some r'
        \<and> developmentMode r' = False
        \<and> running r' = False
        \<and> calls r' = [SetDevelopmentMode False, IsRunning]
        \<and> progressReports w' = [])"
proof -
  have named: "(case Some \<lparr>getName = ''local_fabric''\<rparr> of
                  None \<Rightarrow> (\<lambda>prompt. None) ''Select the Fabric runtime to toggle development mode''
                | Some i \<Rightarrow> Some (getName i)) = Some ''local_fabric''"
    by simp
  have resolved: "runtimes example_runtimes ''local_fabric'' =
     Some \<lparr>developmentMode = False, running = True, calls = []\<rparr>"
    by (simp add: example_runtimes_def)
  have picked: "(case None of
                  None \<Rightarrow> (\<lambda>prompt. Some ''stopped'')
                            ''Select the Fabric runtime to toggle development mode''
                | Some i \<Rightarrow> Some (getName i)) = Some ''stopped''"
    by simp
  have stopped: "runtimes stopped_runtimes ''stopped'' =
     Some \<lparr>developmentMode = True, running = False, calls = []\<rparr>"
    by (simp add: stopped_runtimes_def)
  from toggle_dev_mode [OF named resolved] obtain w' r' where
    "toggleFabricRuntimeDevMode (\<lambda>prompt. None)
       (Some \<lparr>getName = ''local_fabric''\<rparr>) example_runtimes = Inr w'"
    and "runtimes w' = (runtimes example_runtimes)(''local_fabric'' \<mapsto> r')"
    and "developmentMode r' = True" and "running r' = True"
    and "calls r' = [SetDevelopmentMode True, IsRunning, Restart]"
    and "progressReports w' =
           progressReports example_runtimes @ [''Restarting Fabric runtime local_fabric'']"
    by auto
  then have first: "\<exists>w' r'. toggleFabricRuntimeDevMode (\<lambda>prompt. None)
                 (Some \<lparr>getName = ''local_fabric''\<rparr>) example_runtimes = Inr w'
        \<and> runtimes w' ''local_fabric'' = Some r'
        \<and> developmentMode r' = True
        \<and> running r' = True
        \<and> calls r' = [SetDevelopmentMode True, IsRunning, Restart]
        \<and> progressReports w' = [''Restarting Fabric runtime local_fabric'']"
    by (simp add: example_runtimes_def)
  from toggle_dev_mode [OF picked stopped] obtain v' q' where
    "toggleFabricRuntimeDevMode (\<lambda>prompt. Some ''stopped'') None stopped_runtimes = Inr v'"
    and "runtimes v' = (runtimes stopped_runtimes)(''stopped'' \<mapsto> q')"
    and "developmentMode q' = False" and "running q' = False"
    and "calls q' = [SetDevelopmentMode False, IsRunning]"
    and "progressReports v' = progressReports stopped_runtimes"
    by auto
  then have second: "\<exists>w' r'. toggleFabricRuntimeDevMode (\<lambda>prompt. Some ''stopped'') None
                 stopped_runtimes = Inr w'
        \<and> runtimes w' ''stopped'' = Some r'
        \<and> developmentMode r' = False
        \<and> running r' = False
        \<and> calls r' = [SetDevelopmentMode False, IsRunning]
        \<and> progressReports w' = []"
    by (simp add: stopped_runtimes_def)
  from resolved first stopped second show ?thesis
    by blast
qed

text \<open>
  C3 fails on the code. A Go project whose name prompt is cancelled: the metadata
  function returns nothing, the planner reads a property of it, and the command shows
  the resulting TypeError as an error message. A Go project whose name is given and
  whose version prompt is cancelled: the check of the version is inverted, so the run
  goes on and packages into a directory named with \<^verbatim>\<open>undefined\<close> as the version,
  creating directories and copying the project.
\<close>

theorem cancelled_go_prompts:
  "showInputBox example_host ''Enter a name for your go package'' = None
   \<and> fst (golangPackageAndVersion example_host (chosen_world go_project)) = Inr None
   \<and> errorMessages (packageSmartContract example_host (example_world go_project)) =
       [''TypeError: Cannot read property 'workspacePackageName' of undefined'']
   \<and> showInputBox cancelled_version_host ''Enter a version for your go package'' = None
   \<and> fs (packageSmartContract cancelled_version_host (example_world go_project)) =
       go_project @ [(''/pkgs'', True), (''/pkgs/go'', True), (''/pkgs/go/src'', True),
                     (''/pkgs/go/src/mycc@vundefined'', True),
                     (''/pkgs/go/src/mycc@vundefined/chaincode.go'', False)]
   \<and> informationMessages (packageSmartContract cancelled_version_host (example_world go_project)) =
       [''Smart Contract packaged: /pkgs/go/src/mycc@vundefined'']"
  by code_simp

text \<open>
  C4 fails on the code for the name. A Go project whose name prompt is confirmed empty:
  the metadata function takes the empty name for a cancelled prompt and returns nothing,
  so the message about inputting a name or version is never shown; the command shows a
  TypeError instead. (An empty version after a name does fail with that message.)
\<close>

theorem empty_go_name:
  "showInputBox empty_name_host ''Enter a name for your go package'' = Some ''''
   \<and> golangPackageAndVersion empty_name_host (chosen_world go_project) =
       (Inr None, chosen_world go_project)
   \<and> errorMessages (packageSmartContract empty_name_host (example_world go_project)) =
       [''TypeError: Cannot read property 'workspacePackageName' of undefined'']
   \<and> goInputMessage \<notin> set (errorMessages
       (packageSmartContract empty_name_host (example_world go_project)))"
  by code_simp

subsection \<open>What the prompts do otherwise\<close>

text \<open>
  An empty version after a name fails with the message about inputting a name or
  version, for every host.
\<close>

lemma empty_go_version_fails:
  assumes "truthy (showInputBox env ''Enter a name for your go package'')"
    and "showInputBox env ''Enter a version for your go package'' = Some ''''"
  shows "golangPackageAndVersion env w =
           (Inl (Error goInputMessage), showErrorMessage goInputMessage w)"
  using assms by (simp add: golangPackageAndVersion_def Let_def)

text \<open>
  A version that is given makes the metadata function return nothing, as a cancelled
  name does: the check of the version is the wrong way round.
\<close>

lemma given_go_version_returns_nothing:
  assumes "truthy (showInputBox env ''Enter a name for your go package'')"
    and "truthy (showInputBox env ''Enter a version for your go package'')"
  shows "golangPackageAndVersion env w = (Inr None, w)"
  using assms by (simp add: golangPackageAndVersion_def Let_def)

text \<open>
  A cancelled pick among several folders does not end the command: the planner is called
  with an undefined workspace folder.
\<close>

lemma cancelled_pick_goes_on:
  assumes "getWorkspaceFolders env = Inr options"
    and "length options > 1"
    and "showGolangQuickPickBox env ''Choose a workspace folder to package'' = None"
  shows "chooseWorkspace env w = (Inr None, outputAdapter_log ''Getting workspace folders...'' w)"
    and "createPackageDir env pd w =
           (case getFinalDirectory env pd None
                   (outputAdapter_log ''Getting workspace folders...'' w) of
              (Inl err, w2) \<Rightarrow> (Inl err, w2)
            | (Inr dir, w2) \<Rightarrow> createAndPackage env dir None w2)"
  using assms by (simp_all add: chooseWorkspace_def createPackageDir_def)

text \<open>
  With an undefined workspace folder the planner fails in its first search, so a
  cancelled pick and an empty folder list both end in a TypeError that the command shows.
\<close>

lemma undefined_workspace_shows_error:
  shows "getFinalDirectory env pd None w =
           (Inl (TypeError ''Path must be a string. Received undefined''), w)"
    and "chooseWorkspace env w0 = (Inr None, w) \<Longrightarrow>
           packageSmartContract env w0 =
             showErrorMessage ''TypeError: Path must be a string. Received undefined'' w"
  by (simp_all add: getFinalDirectory_def getLanguage_def packageSmartContract_def
       createPackageDir_def)

end
